theory Spec2Isabelle
  imports Main "HOL-Library.AList"
begin

section \<open>JavaScript values and objects used by the biometric animation script\<close>

text \<open>
  The script keeps three module-level objects, \<open>validatedBiometrics\<close>,
  \<open>sessionValidations\<close> and \<open>validatedUserIds\<close>, whose property names are
  biometric types (strings). The first two hold booleans, the third holds the user
  identifier of the last validation of that type: \<open>null\<close>, a string, or a number
  (the comment in \<open>doValidatedBiometricsMatchSameUser\<close> says the server may return
  numbers where the client stores strings). Numeric identifiers are integers; for an
  integer below \<open>10^21\<close> the conversion \<open>String(n)\<close> is its decimal numeral.
\<close>

datatype user_id = IdNull | IdStr string | IdNum int

fun decimal :: "nat \<Rightarrow> string" where
  "decimal n =
     (if n < 10 then [''0123456789'' ! n]
      else decimal (n div 10) @ [''0123456789'' ! (n mod 10)])"

text \<open>\<open>String(userId)\<close>.\<close>

fun js_String :: "user_id \<Rightarrow> string" where
  "js_String IdNull = ''null''"
| "js_String (IdStr s) = s"
| "js_String (IdNum n) = (if n < 0 then CHR ''-'' # decimal (nat (- n)) else decimal (nat n))"

text \<open>
  An ordinary object: its own enumerable properties in enumeration order (insertion
  order, which is the order JavaScript gives to property names that are not array
  indices), and whether its prototype is still \<open>Object.prototype\<close>. Object literals
  and the results of \<open>JSON.parse\<close> start with that prototype; the only way the script
  can lose it is the assignment \<open>validatedUserIds['__proto__'] = null\<close>.
\<close>

record 'a jsobj =
  props :: "(string \<times> 'a) list"
  has_proto :: bool

text \<open>The property names every object inherits from \<open>Object.prototype\<close>.\<close>

definition object_prototype_names :: "string list" where
  "object_prototype_names =
     [''constructor'', ''__defineGetter__'', ''__defineSetter__'', ''hasOwnProperty'',
      ''__lookupGetter__'', ''__lookupSetter__'', ''isPrototypeOf'',
      ''propertyIsEnumerable'', ''toString'', ''valueOf'', ''__proto__'',
      ''toLocaleString'']"

text \<open>
  The result of reading \<open>ob[k]\<close>: an own value, the value inherited from
  \<open>Object.prototype\<close> under that name (a function, or the prototype itself for
  \<open>__proto__\<close>: one distinct object per name), or \<open>undefined\<close>.
  Equality of two such results is JavaScript's strict equality \<open>===\<close>.
\<close>

datatype 'a lookup = Own 'a | Inherited string | Undefined

definition obj_get :: "'a jsobj \<Rightarrow> string \<Rightarrow> 'a lookup" where
  "obj_get ob k =
     (case map_of (props ob) k of
        Some v \<Rightarrow> Own v
      | None \<Rightarrow> if has_proto ob \<and> k \<in> set object_prototype_names then Inherited k
                else Undefined)"

text \<open>Truthiness of a looked-up flag: functions and objects are truthy.\<close>

fun truthy :: "bool lookup \<Rightarrow> bool" where
  "truthy (Own b) = b"
| "truthy (Inherited k) = True"
| "truthy Undefined = False"

text \<open>
  The assignment \<open>ob[k] = v\<close>. An own property is overwritten in place; a new name is
  appended (also when it shadows an inherited function). The inherited \<open>__proto__\<close> is
  an accessor: its setter ignores primitive values and, given \<open>null\<close>, removes the
  prototype. The first argument says whether the assigned value is \<open>null\<close>.
\<close>

definition obj_assign :: "('a \<Rightarrow> bool) \<Rightarrow> 'a jsobj \<Rightarrow> string \<Rightarrow> 'a \<Rightarrow> 'a jsobj" where
  "obj_assign is_null ob k v =
     (if map_of (props ob) k = None \<and> has_proto ob \<and> k = ''__proto__''
      then (if is_null v then ob\<lparr>has_proto := False\<rparr> else ob)
      else ob\<lparr>props := AList.update k v (props ob)\<rparr>)"

definition assign_flag :: "bool jsobj \<Rightarrow> string \<Rightarrow> bool \<Rightarrow> bool jsobj" where
  "assign_flag = obj_assign (\<lambda>_. False)"

definition assign_id :: "user_id jsobj \<Rightarrow> string \<Rightarrow> user_id \<Rightarrow> user_id jsobj" where
  "assign_id = obj_assign (\<lambda>u. u = IdNull)"

text \<open>\<open>for (const type in ob) { ob[type] = v; }\<close>: every own property is overwritten.\<close>

definition assign_all :: "'a \<Rightarrow> 'a jsobj \<Rightarrow> 'a jsobj" where
  "assign_all v ob = ob\<lparr>props := map (\<lambda>(k, _). (k, v)) (props ob)\<rparr>"

definition factors :: "string list" where
  "factors = [''face'', ''voice'', ''retina'', ''proximity'']"

text \<open>The object literals of lines 9 to 32.\<close>

definition default_flags :: "(string \<times> bool) list" where
  "default_flags =
     [(''face'', False), (''voice'', False), (''retina'', False), (''proximity'', False)]"

definition default_ids :: "(string \<times> user_id) list" where
  "default_ids =
     [(''face'', IdNull), (''voice'', IdNull), (''retina'', IdNull), (''proximity'', IdNull)]"

section \<open>Storage, effects and the module state\<close>

text \<open>
  A key of \<open>localStorage\<close> that holds \<open>JSON.stringify\<close> of one of the three objects:
  absent, a non-empty text that is not JSON, or the JSON text of an object, represented
  by the properties it lists. The serialised text itself is not modelled.
\<close>

datatype 'a item = Absent | Malformed | Json 'a

record local_storage =
  ls_validatedBiometrics :: "(string \<times> bool) list item"
  ls_sessionValidations :: "(string \<times> bool) list item"
  ls_validatedUserIds :: "(string \<times> user_id) list item"
  ls_validatedUserData :: "string option"

text \<open>
  The diagnostic records written on a mismatch: the identifiers by validated type
  (\<open>setBiometricValidated\<close>) or the validated types and their identifiers
  (\<open>showCarDoorAnimation\<close>; its timestamp is not modelled).
\<close>

datatype violation_details =
  ByType "(string \<times> user_id lookup) list"
| MismatchInfo "string list" "user_id lookup list"

record session_storage =
  ss_biometric_security_violation :: "string option"
  ss_biometric_security_mismatch_ids :: "user_id list option"
  ss_biometric_security_violation_details :: "violation_details option"
  ss_has_shown_biometric_welcome :: "string option"

text \<open>
  What the script does to the page and the console, in the order it happens. Calls of
  \<open>console.log\<close> are not recorded; \<open>console.error\<close> is, with the fixed part of its
  text. \<open>AnimationInvoked\<close> marks each entry into \<open>showCarDoorAnimation\<close>.
\<close>

datatype callback = Redirect string | RemoveAlertAndRedirect string | CallShowCarDoorAnimation

datatype effect =
  ConsoleError string
| MismatchAlert
| AnimationBlockedAlert
| SetTimeout nat callback
| AnimationInvoked
| OverlayShown
| Fetch string

record state =
  validatedBiometrics :: "bool jsobj"
  sessionValidations :: "bool jsobj"
  validatedUserIds :: "user_id jsobj"
  animationVisible :: bool
  localStorage :: local_storage
  sessionStorage :: session_storage
  effects :: "effect list"

definition emit :: "effect list \<Rightarrow> state \<Rightarrow> state" where
  "emit es s = s\<lparr>effects := effects s @ es\<rparr>"

text \<open>\<open>localStorage.setItem(key, JSON.stringify(object))\<close> for the three objects.\<close>

definition save_validatedBiometrics :: "state \<Rightarrow> state" where
  "save_validatedBiometrics s =
     s\<lparr>localStorage := (localStorage s)
         \<lparr>ls_validatedBiometrics := Json (props (validatedBiometrics s))\<rparr>\<rparr>"

definition save_sessionValidations :: "state \<Rightarrow> state" where
  "save_sessionValidations s =
     s\<lparr>localStorage := (localStorage s)
         \<lparr>ls_sessionValidations := Json (props (sessionValidations s))\<rparr>\<rparr>"

definition save_validatedUserIds :: "state \<Rightarrow> state" where
  "save_validatedUserIds s =
     s\<lparr>localStorage := (localStorage s)
         \<lparr>ls_validatedUserIds := Json (props (validatedUserIds s))\<rparr>\<rparr>"

section \<open>The operations of the script\<close>

text \<open>The constant \<open>userIds\<close> of \<open>doValidatedBiometricsMatchSameUser\<close> (lines 41 to 43).\<close>

definition userIds :: "state \<Rightarrow> user_id list" where
  "userIds s =
     map snd
       (filter (\<lambda>(type, userId). truthy (obj_get (validatedBiometrics s) type) \<and> userId \<noteq> IdNull)
          (props (validatedUserIds s)))"

definition doValidatedBiometricsMatchSameUser :: "state \<Rightarrow> bool \<times> state" where
  "doValidatedBiometricsMatchSameUser s =
     (let ids = userIds s in
      if length ids \<le> 1 then (True, s)
      else
        let firstUserId = hd ids;
            allMatch = list_all (\<lambda>userId. js_String userId = js_String firstUserId) ids
        in if \<not> allMatch
           then (allMatch,
                 s\<lparr>sessionStorage := (sessionStorage s)
                     \<lparr>ss_biometric_security_violation := Some ''true'',
                      ss_biometric_security_mismatch_ids := Some ids\<rparr>\<rparr>)
           else (allMatch, s))"

definition countValidatedBiometrics :: "state \<Rightarrow> nat" where
  "countValidatedBiometrics s = length (filter snd (props (validatedBiometrics s)))"

definition countSessionValidations :: "state \<Rightarrow> nat" where
  "countSessionValidations s = length (filter id (map snd (props (sessionValidations s))))"

definition resetBiometricValidations :: "state \<Rightarrow> state" where
  "resetBiometricValidations s =
     (let s1 = s\<lparr>validatedBiometrics := assign_all False (validatedBiometrics s),
                 sessionValidations := assign_all False (sessionValidations s),
                 validatedUserIds := assign_all IdNull (validatedUserIds s),
                 animationVisible := False\<rparr>;
          s2 = save_validatedUserIds (save_sessionValidations (save_validatedBiometrics s1))
      in s2\<lparr>localStorage := (localStorage s2)\<lparr>ls_validatedUserData := None\<rparr>,
            sessionStorage := (sessionStorage s2)\<lparr>ss_has_shown_biometric_welcome := None\<rparr>\<rparr>)"

definition resetSessionValidations :: "state \<Rightarrow> state" where
  "resetSessionValidations s =
     (let s1 = save_sessionValidations
                 (s\<lparr>sessionValidations := assign_all False (sessionValidations s)\<rparr>)
      in s1\<lparr>sessionStorage := (sessionStorage s1)\<lparr>ss_has_shown_biometric_welcome := None\<rparr>\<rparr>)"

definition setSessionValidation :: "string \<Rightarrow> bool \<Rightarrow> state \<Rightarrow> bool \<times> state" where
  "setSessionValidation type isValidated s =
     (if obj_get (sessionValidations s) type \<noteq> Undefined
      then (True,
            save_sessionValidations
              (s\<lparr>sessionValidations := assign_flag (sessionValidations s) type isValidated\<rparr>))
      else (False, s))"

text \<open>
  \<open>showCarDoorAnimation\<close>, up to the start of the network fetch (lines 334 to 414);
  what follows the fetch is asynchronous rendering. The value \<open>false\<close> it returns when
  it blocks is not used by the script.
\<close>

definition showCarDoorAnimation :: "state \<Rightarrow> state" where
  "showCarDoorAnimation s =
     (let (securityCheck, s1) = doValidatedBiometricsMatchSameUser (emit [AnimationInvoked] s);
          validatedTypes = map fst (filter snd (props (validatedBiometrics s1)));
          biometricUserIds = map (obj_get (validatedUserIds s1)) validatedTypes
      in if \<not> securityCheck \<or>
            (case biometricUserIds of [] \<Rightarrow> False
             | first # _ \<Rightarrow> list_ex (\<lambda>i. i \<noteq> first) biometricUserIds)
         then
           let s2 = emit [ConsoleError ''SECURITY ALERT: Car door animation blocked due to mismatched user biometrics!'',
                          ConsoleError ''Security violation details:''] s1;
               s3 = s2\<lparr>sessionStorage := (sessionStorage s2)
                         \<lparr>ss_biometric_security_violation := Some ''true'',
                          ss_biometric_security_violation_details :=
                            Some (MismatchInfo validatedTypes biometricUserIds)\<rparr>\<rparr>;
               s4 = resetBiometricValidations (emit [AnimationBlockedAlert] s3)
           in emit [SetTimeout 3000 (RemoveAlertAndRedirect ''/?security_violation=true'')] s4
         else
           emit [OverlayShown, Fetch ''/static/images/vehicles/audi/animation/car-doors.svg'']
             (s1\<lparr>animationVisible := True\<rparr>))"

text \<open>The updates of both stores in \<open>setBiometricValidated\<close> (lines 98 to 118).\<close>

definition storeValidation :: "string \<Rightarrow> bool \<Rightarrow> user_id \<Rightarrow> state \<Rightarrow> state" where
  "storeValidation type isValidated userId s =
     (let s1 = s\<lparr>validatedBiometrics := assign_flag (validatedBiometrics s) type isValidated\<rparr>;
          s2 = (if isValidated then
                  let s' = s1\<lparr>sessionValidations := assign_flag (sessionValidations s1) type True\<rparr>
                  in if userId \<noteq> IdNull
                     then save_validatedUserIds
                            (s'\<lparr>validatedUserIds := assign_id (validatedUserIds s') type userId\<rparr>)
                     else s'
                else save_validatedUserIds
                       (s1\<lparr>validatedUserIds := assign_id (validatedUserIds s1) type IdNull\<rparr>))
      in save_sessionValidations (save_validatedBiometrics s2))"

text \<open>The security-violation branch of \<open>setBiometricValidated\<close> (lines 166 to 201).\<close>

definition securityViolation :: "state \<Rightarrow> state" where
  "securityViolation s =
     (let userIdsByType =
            map (\<lambda>type. (type, obj_get (validatedUserIds s) type))
              (map fst (filter snd (props (validatedBiometrics s))));
          s1 = emit [ConsoleError ''Security violation details - Mismatched biometric user IDs:''] s;
          s2 = s1\<lparr>sessionStorage := (sessionStorage s1)
                    \<lparr>ss_biometric_security_violation := Some ''true'',
                     ss_biometric_security_violation_details := Some (ByType userIdsByType)\<rparr>\<rparr>;
          s3 = resetBiometricValidations (emit [MismatchAlert] s2)
      in emit [SetTimeout 3000 (Redirect ''/?security_violation=true'')] s3)"

definition setBiometricValidated :: "string \<Rightarrow> bool \<Rightarrow> user_id \<Rightarrow> state \<Rightarrow> state" where
  "setBiometricValidated type isValidated userId s =
     (if obj_get (validatedBiometrics s) type \<noteq> Undefined then
        let isNewSessionValidation =
              (\<not> truthy (obj_get (sessionValidations s) type) \<and> isValidated);
            s1 = storeValidation type isValidated userId s;
            validCount = countValidatedBiometrics s1;
            sessionCount = countSessionValidations s1;
            (doUsersMatch, s2) = doValidatedBiometricsMatchSameUser s1
        in if validCount \<ge> 2 \<and> \<not> animationVisible s2 \<and> isNewSessionValidation \<and>
              sessionCount \<ge> 2 \<and> doUsersMatch
           then showCarDoorAnimation s2
           else if validCount \<ge> 2 \<and> \<not> doUsersMatch
           then securityViolation s2
           else s2
      else emit [ConsoleError (''Unknown biometric type: '' @ type)] s)"

text \<open>
  The timer callback of \<open>hideCarDoorAnimation\<close> (lines 577 to 593): once the overlay
  has faded, the animation counts as hidden.
\<close>

definition hideCleanup :: "state \<Rightarrow> state" where
  "hideCleanup s = s\<lparr>animationVisible := False\<rparr>"

section \<open>Module load and the page-load handler\<close>

datatype js_error = SyntaxError

text \<open>\<open>JSON.parse(localStorage.getItem(key)) || { ...defaults }\<close> (lines 9, 18 and 27).\<close>

definition parse_or_default :: "(string \<times> 'a) list \<Rightarrow> (string \<times> 'a) list item \<Rightarrow> js_error + 'a jsobj" where
  "parse_or_default dflt it =
     (case it of
        Absent \<Rightarrow> Inr \<lparr>props = dflt, has_proto = True\<rparr>
      | Malformed \<Rightarrow> Inl SyntaxError
      | Json kvs \<Rightarrow> Inr \<lparr>props = kvs, has_proto = True\<rparr>)"

text \<open>
  Evaluation of the script's top level against the two stores of the page: the three
  objects are read from \<open>localStorage\<close>, the animation is not visible. A stored text
  that does not parse makes the script fail with the exception of \<open>JSON.parse\<close>.
\<close>

definition moduleInit :: "local_storage \<Rightarrow> session_storage \<Rightarrow> js_error + state" where
  "moduleInit ls ss =
     (case parse_or_default default_flags (ls_validatedBiometrics ls) of
        Inl e \<Rightarrow> Inl e
      | Inr vb \<Rightarrow>
          (case parse_or_default default_flags (ls_sessionValidations ls) of
             Inl e \<Rightarrow> Inl e
           | Inr sv \<Rightarrow>
               (case parse_or_default default_ids (ls_validatedUserIds ls) of
                  Inl e \<Rightarrow> Inl e
                | Inr ids \<Rightarrow>
                    Inr \<lparr>validatedBiometrics = vb, sessionValidations = sv,
                         validatedUserIds = ids, animationVisible = False,
                         localStorage = ls, sessionStorage = ss, effects = []\<rparr>)))"

definition empty_local_storage :: local_storage where
  "empty_local_storage =
     \<lparr>ls_validatedBiometrics = Absent, ls_sessionValidations = Absent,
      ls_validatedUserIds = Absent, ls_validatedUserData = None\<rparr>"

definition empty_session_storage :: session_storage where
  "empty_session_storage =
     \<lparr>ss_biometric_security_violation = None, ss_biometric_security_mismatch_ids = None,
      ss_biometric_security_violation_details = None, ss_has_shown_biometric_welcome = None\<rparr>"

text \<open>The state of the script after its first load on a fresh origin.\<close>

definition initialState :: state where
  "initialState =
     \<lparr>validatedBiometrics = \<lparr>props = default_flags, has_proto = True\<rparr>,
      sessionValidations = \<lparr>props = default_flags, has_proto = True\<rparr>,
      validatedUserIds = \<lparr>props = default_ids, has_proto = True\<rparr>,
      animationVisible = False,
      localStorage = empty_local_storage, sessionStorage = empty_session_storage,
      effects = []\<rparr>"

text \<open>
  The browser's part (Web Storage): when the tab or browser session ends,
  \<open>sessionStorage\<close> is discarded and \<open>localStorage\<close> is kept; the next visit loads the
  script again against these stores.
\<close>

definition loadInNewSession :: "state \<Rightarrow> js_error + state" where
  "loadInNewSession s = moduleInit (localStorage s) empty_session_storage"

text \<open>A reload of the page within the session: both stores are kept.\<close>

definition reloadPage :: "state \<Rightarrow> js_error + state" where
  "reloadPage s = moduleInit (localStorage s) (sessionStorage s)"

text \<open>
  The \<open>DOMContentLoaded\<close> handler (lines 610 to 646). It reads the session flags
  again from \<open>localStorage\<close> into a local object, falling back to the defaults when the
  key is absent or its text does not parse, and schedules the animation. Its call of
  \<open>createAnimationContainer\<close> only adds the hidden overlay element to the page.
\<close>

definition onDOMContentLoaded :: "state \<Rightarrow> state" where
  "onDOMContentLoaded s =
     (let validCount = countValidatedBiometrics s;
          (storedFlags, s1) =
            (case ls_sessionValidations (localStorage s) of
               Absent \<Rightarrow> (default_flags, s)
             | Malformed \<Rightarrow> (default_flags, emit [ConsoleError ''Error parsing session validations:''] s)
             | Json kvs \<Rightarrow> (kvs, s));
          sessionCount = length (filter id (map snd storedFlags))
      in if validCount \<ge> 2 \<and> \<not> animationVisible s1 \<and> sessionCount \<ge> 2
         then emit [SetTimeout 500 CallShowCarDoorAnimation] s1
         else s1)"

section \<open>Reachable states and observations\<close>

text \<open>
  The states the script can be in after any sequence of calls of its exported
  operations, from its first load.
\<close>

inductive reachable :: "state \<Rightarrow> bool" where
  r_init: "reachable initialState"
| r_setBiometricValidated:
    "reachable s \<Longrightarrow> reachable (setBiometricValidated type isValidated userId s)"
| r_resetBiometricValidations: "reachable s \<Longrightarrow> reachable (resetBiometricValidations s)"
| r_resetSessionValidations: "reachable s \<Longrightarrow> reachable (resetSessionValidations s)"
| r_setSessionValidation:
    "reachable s \<Longrightarrow> reachable (snd (setSessionValidation type isValidated s))"
| r_showCarDoorAnimation: "reachable s \<Longrightarrow> reachable (showCarDoorAnimation s)"
| r_hideCleanup: "reachable s \<Longrightarrow> reachable (hideCleanup s)"

text \<open>How often \<open>showCarDoorAnimation\<close> has been entered so far.\<close>

definition trigger_count :: "state \<Rightarrow> nat" where
  "trigger_count s = count_list (effects s) AnimationInvoked"

text \<open>The stored validation flag and user identifier of a type.\<close>

definition validatedOf :: "state \<Rightarrow> string \<Rightarrow> bool lookup" where
  "validatedOf s type = obj_get (validatedBiometrics s) type"

definition sessionFlagOf :: "state \<Rightarrow> string \<Rightarrow> bool lookup" where
  "sessionFlagOf s type = obj_get (sessionValidations s) type"

definition userIdOf :: "state \<Rightarrow> string \<Rightarrow> user_id lookup" where
  "userIdOf s type = obj_get (validatedUserIds s) type"

text \<open>
  The record invariant of the data model, for the four biometric types: each has a
  stored flag and a stored identifier, and the identifier is \<open>null\<close> unless the flag
  is \<open>true\<close>.
\<close>

definition no_stale_identity :: "state \<Rightarrow> bool" where
  "no_stale_identity s =
     (\<forall>f \<in> set factors.
        (\<exists>b. validatedOf s f = Own b) \<and> (\<exists>u. userIdOf s f = Own u) \<and>
        (userIdOf s f \<noteq> Own IdNull \<longrightarrow> validatedOf s f = Own True))"

text \<open>
  The condition under which \<open>showCarDoorAnimation\<close> blocks and resets instead of
  showing the overlay (line 348), on the state in which it is called.
\<close>

definition animation_blocked :: "state \<Rightarrow> bool" where
  "animation_blocked s =
     (\<not> fst (doValidatedBiometricsMatchSameUser s) \<or>
      (case map (obj_get (validatedUserIds s)) (map fst (filter snd (props (validatedBiometrics s)))) of
         [] \<Rightarrow> False
       | first # _ \<Rightarrow>
           list_ex (\<lambda>i. i \<noteq> first)
             (map (obj_get (validatedUserIds s)) (map fst (filter snd (props (validatedBiometrics s)))))))"

text \<open>
  At rest, a state does not hold two validated biometrics together with a mismatch.
\<close>

definition at_rest_consistent :: "state \<Rightarrow> bool" where
  "at_rest_consistent s =
     (2 \<le> countValidatedBiometrics s \<longrightarrow> fst (doValidatedBiometricsMatchSameUser s))"

section \<open>Basic facts\<close>

declare decimal.simps [simp del]

lemmas save_defs =
  save_validatedBiometrics_def save_sessionValidations_def save_validatedUserIds_def emit_def

lemmas model_defs =
  obj_get_def obj_assign_def assign_flag_def assign_id_def assign_all_def factors_def
  default_flags_def default_ids_def object_prototype_names_def save_defs
  userIds_def doValidatedBiometricsMatchSameUser_def countValidatedBiometrics_def
  countSessionValidations_def resetBiometricValidations_def resetSessionValidations_def
  setSessionValidation_def showCarDoorAnimation_def storeValidation_def securityViolation_def
  setBiometricValidated_def hideCleanup_def parse_or_default_def moduleInit_def
  empty_local_storage_def empty_session_storage_def initialState_def loadInNewSession_def
  onDOMContentLoaded_def trigger_count_def validatedOf_def sessionFlagOf_def userIdOf_def
  decimal.simps Let_def

lemma map_of_assign_all:
  "map_of (map (\<lambda>(k, _). (k, v)) xs) f = map_option (\<lambda>_. v) (map_of xs f)"
  by (induction xs) auto

lemma factor_not_inherited: "f \<in> set factors \<Longrightarrow> f \<notin> set object_prototype_names"
  by (auto simp: factors_def object_prototype_names_def)

lemma obj_get_assign:
  "f \<notin> set object_prototype_names \<Longrightarrow>
   obj_get (obj_assign n ob k v) f = (if k = f then Own v else obj_get ob f)"
  by (auto simp: obj_get_def obj_assign_def update_conv' object_prototype_names_def
           split: option.splits)

lemma obj_get_assign_all:
  "obj_get (assign_all v ob) f =
     (case obj_get ob f of Own _ \<Rightarrow> Own v | Inherited k \<Rightarrow> Inherited k | Undefined \<Rightarrow> Undefined)"
  by (auto simp: obj_get_def assign_all_def map_of_assign_all split: option.splits)

lemma doValidated_fields [simp]:
  "validatedBiometrics (snd (doValidatedBiometricsMatchSameUser s)) = validatedBiometrics s"
  "sessionValidations (snd (doValidatedBiometricsMatchSameUser s)) = sessionValidations s"
  "validatedUserIds (snd (doValidatedBiometricsMatchSameUser s)) = validatedUserIds s"
  "animationVisible (snd (doValidatedBiometricsMatchSameUser s)) = animationVisible s"
  "localStorage (snd (doValidatedBiometricsMatchSameUser s)) = localStorage s"
  "effects (snd (doValidatedBiometricsMatchSameUser s)) = effects s"
  by (simp_all add: doValidatedBiometricsMatchSameUser_def Let_def)

lemma storeValidation_fields [simp]:
  "validatedBiometrics (storeValidation t v u s) = assign_flag (validatedBiometrics s) t v"
  "sessionValidations (storeValidation t v u s) =
     (if v then assign_flag (sessionValidations s) t True else sessionValidations s)"
  "validatedUserIds (storeValidation t v u s) =
     (if v then (if u = IdNull then validatedUserIds s else assign_id (validatedUserIds s) t u)
      else assign_id (validatedUserIds s) t IdNull)"
  "animationVisible (storeValidation t v u s) = animationVisible s"
  "sessionStorage (storeValidation t v u s) = sessionStorage s"
  "effects (storeValidation t v u s) = effects s"
  by (auto simp add: storeValidation_def Let_def save_defs)

lemma reset_fields [simp]:
  "validatedBiometrics (resetBiometricValidations s) = assign_all False (validatedBiometrics s)"
  "sessionValidations (resetBiometricValidations s) = assign_all False (sessionValidations s)"
  "validatedUserIds (resetBiometricValidations s) = assign_all IdNull (validatedUserIds s)"
  "animationVisible (resetBiometricValidations s) = False"
  "effects (resetBiometricValidations s) = effects s"
  by (simp_all add: resetBiometricValidations_def Let_def save_defs)

section \<open>String and number identifiers of one user\<close>

text \<open>
  C1. From the initial state, \<open>setBiometricValidated('face', true, 7)\<close> followed by
  \<open>setBiometricValidated('voice', true, "7")\<close>: the consistency checker compares the
  identifiers as strings and accepts them, so the second call enters
  \<open>showCarDoorAnimation\<close>; there the identifiers are compared with \<open>!==\<close>, the number
  and the string differ, and the animation path records a security violation, resets
  every flag and identifier, and schedules the redirect.
\<close>

theorem C1_number_then_string_id_is_blocked:
  "fst (doValidatedBiometricsMatchSameUser
         (storeValidation ''voice'' True (IdStr ''7'')
           (setBiometricValidated ''face'' True (IdNum 7) initialState))) \<and>
   (let r = setBiometricValidated ''voice'' True (IdStr ''7'')
              (setBiometricValidated ''face'' True (IdNum 7) initialState)
    in ss_biometric_security_violation (sessionStorage r) = Some ''true'' \<and>
       ss_biometric_security_violation_details (sessionStorage r) =
         Some (MismatchInfo [''face'', ''voice''] [Own (IdNum 7), Own (IdStr ''7'')]) \<and>
       props (validatedBiometrics r) = default_flags \<and>
       props (sessionValidations r) = default_flags \<and>
       props (validatedUserIds r) = default_ids \<and>
       \<not> animationVisible r \<and>
       effects r =
         [AnimationInvoked,
          ConsoleError ''SECURITY ALERT: Car door animation blocked due to mismatched user biometrics!'',
          ConsoleError ''Security violation details:'',
          AnimationBlockedAlert,
          SetTimeout 3000 (RemoveAlertAndRedirect ''/?security_violation=true'')])"
  by (simp add: model_defs)

section \<open>Where the session flags are stored\<close>

text \<open>
  C4. The session flags are written to \<open>localStorage\<close>, the durable store, and read
  back from it when the script loads. After \<open>face\<close> and \<open>voice\<close> have been validated
  for user \<open>"7"\<close>, the browser session ends (the session store is discarded) and the
  page is loaded in a new session: both session flags are still \<open>true\<close>, and the
  page-load handler schedules the animation without any validation in the new session.
\<close>

theorem C4_session_flags_survive_the_session:
  "ls_sessionValidations
     (localStorage (setBiometricValidated ''face'' True (IdStr ''7'') initialState)) =
     Json [(''face'', True), (''voice'', False), (''retina'', False), (''proximity'', False)] \<and>
   (\<exists>s'. loadInNewSession
           (setBiometricValidated ''voice'' True (IdStr ''7'')
             (setBiometricValidated ''face'' True (IdStr ''7'') initialState)) = Inr s' \<and>
         sessionStorage s' = empty_session_storage \<and>
         sessionFlagOf s' ''face'' = Own True \<and>
         sessionFlagOf s' ''voice'' = Own True \<and>
         countSessionValidations s' = 2 \<and>
         effects (onDOMContentLoaded s') = [SetTimeout 500 CallShowCarDoorAnimation])"
  by (simp add: model_defs)

section \<open>Types that are not biometric types\<close>

text \<open>
  A type for which \<open>validatedBiometrics[type]\<close> is \<open>undefined\<close> is rejected: the call
  logs an error and changes nothing else.
\<close>

lemma undefined_type_only_logs:
  "obj_get (validatedBiometrics s) type = Undefined \<Longrightarrow>
   setBiometricValidated type isValidated userId s =
     emit [ConsoleError (''Unknown biometric type: '' @ type)] s"
  by (simp add: setBiometricValidated_def)

text \<open>
  C9. The guard of \<open>setBiometricValidated\<close> is
  \<open>typeof validatedBiometrics[type] !== 'undefined'\<close>, and a property name inherited
  from \<open>Object.prototype\<close> passes it. The call
  \<open>setBiometricValidated('toString', true, "1")\<close> on the initial state adds the
  property \<open>toString\<close> to all three objects, writes them to \<open>localStorage\<close>, counts
  as one validated biometric, and logs no error.
\<close>

theorem C9_inherited_name_passes_the_guard:
  "''toString'' \<notin> set factors \<and>
   obj_get (validatedBiometrics initialState) ''toString'' = Inherited ''toString'' \<and>
   (let r = setBiometricValidated ''toString'' True (IdStr ''1'') initialState
    in props (validatedBiometrics r) = default_flags @ [(''toString'', True)] \<and>
       props (sessionValidations r) = default_flags @ [(''toString'', True)] \<and>
       props (validatedUserIds r) = default_ids @ [(''toString'', IdStr ''1'')] \<and>
       ls_validatedBiometrics (localStorage r) = Json (default_flags @ [(''toString'', True)]) \<and>
       ls_validatedUserIds (localStorage r) = Json (default_ids @ [(''toString'', IdStr ''1'')]) \<and>
       countValidatedBiometrics r = 1 \<and>
       effects r = [])"
  by (simp add: model_defs)

section \<open>Reset\<close>

lemma assign_all_idem: "assign_all v (assign_all v ob) = assign_all v ob"
  by (simp add: assign_all_def comp_def case_prod_unfold)

lemma assign_all_keys: "map fst (props (assign_all v ob)) = map fst (props ob)"
  by (simp add: assign_all_def comp_def case_prod_unfold)

lemma assign_all_values: "snd ` set (props (assign_all v ob)) \<subseteq> {v}"
  by (auto simp: assign_all_def)

text \<open>
  C8. \<open>resetBiometricValidations\<close> keeps the property names of the three objects and
  sets every validation flag and session flag to \<open>false\<close> and every identifier to
  \<open>null\<close>, hides the animation, writes the three zeroed objects to \<open>localStorage\<close>,
  removes the cached user data and the welcome marker; a second call in a row changes
  nothing, in memory or in either store, whatever the state before.
\<close>

theorem C8_resetAll_zeroes_and_is_idempotent:
  "(let r = resetBiometricValidations s in
      map fst (props (validatedBiometrics r)) = map fst (props (validatedBiometrics s)) \<and>
      snd ` set (props (validatedBiometrics r)) \<subseteq> {False} \<and>
      map fst (props (validatedUserIds r)) = map fst (props (validatedUserIds s)) \<and>
      snd ` set (props (validatedUserIds r)) \<subseteq> {IdNull} \<and>
      map fst (props (sessionValidations r)) = map fst (props (sessionValidations s)) \<and>
      snd ` set (props (sessionValidations r)) \<subseteq> {False} \<and>
      \<not> animationVisible r \<and>
      ls_validatedBiometrics (localStorage r) = Json (props (validatedBiometrics r)) \<and>
      ls_validatedUserIds (localStorage r) = Json (props (validatedUserIds r)) \<and>
      ls_sessionValidations (localStorage r) = Json (props (sessionValidations r)) \<and>
      ls_validatedUserData (localStorage r) = None \<and>
      ss_has_shown_biometric_welcome (sessionStorage r) = None) \<and>
   resetBiometricValidations (resetBiometricValidations s) = resetBiometricValidations s"
proof -
  have idem: "resetBiometricValidations (resetBiometricValidations s) = resetBiometricValidations s"
    by (simp add: resetBiometricValidations_def Let_def save_defs assign_all_idem)
  have stores:
    "ls_validatedBiometrics (localStorage (resetBiometricValidations s)) =
       Json (props (assign_all False (validatedBiometrics s)))"
    "ls_validatedUserIds (localStorage (resetBiometricValidations s)) =
       Json (props (assign_all IdNull (validatedUserIds s)))"
    "ls_sessionValidations (localStorage (resetBiometricValidations s)) =
       Json (props (assign_all False (sessionValidations s)))"
    "ls_validatedUserData (localStorage (resetBiometricValidations s)) = None"
    "ss_has_shown_biometric_welcome (sessionStorage (resetBiometricValidations s)) = None"
    by (simp_all add: resetBiometricValidations_def Let_def save_defs)
  show ?thesis
    unfolding Let_def using idem stores
    by (simp add: assign_all_keys assign_all_values)
qed

theorem C8_witness:
  "props (validatedUserIds (resetBiometricValidations
      (setBiometricValidated ''face'' True (IdStr ''1'') initialState))) = default_ids \<and>
   resetBiometricValidations (resetBiometricValidations
      (setBiometricValidated ''face'' True (IdStr ''1'') initialState)) =
   resetBiometricValidations (setBiometricValidated ''face'' True (IdStr ''1'') initialState)"
  using C8_resetAll_zeroes_and_is_idempotent
          [of "setBiometricValidated ''face'' True (IdStr ''1'') initialState"]
  by (simp add: model_defs)

section \<open>The consistency checker\<close>

lemma doValidated_result:
  "fst (doValidatedBiometricsMatchSameUser s) =
     (length (userIds s) \<le> 1 \<or> (\<forall>u\<in>set (userIds s). js_String u = js_String (hd (userIds s))))"
  by (auto simp: doValidatedBiometricsMatchSameUser_def Let_def list_all_iff)

lemma doValidated_state:
  "snd (doValidatedBiometricsMatchSameUser s) =
     (if fst (doValidatedBiometricsMatchSameUser s) then s
      else s\<lparr>sessionStorage := (sessionStorage s)
               \<lparr>ss_biometric_security_violation := Some ''true'',
                ss_biometric_security_mismatch_ids := Some (userIds s)\<rparr>\<rparr>)"
  by (auto simp: doValidatedBiometricsMatchSameUser_def Let_def list_all_iff)

lemma all_equal_hd:
  "(\<forall>u\<in>set xs. f u = f (hd xs)) = (\<forall>u\<in>set xs. \<forall>v\<in>set xs. f u = f v)"
  by (cases xs) auto

lemma short_all_equal: "length xs \<le> 1 \<Longrightarrow> \<forall>u\<in>set xs. \<forall>v\<in>set xs. f u = f v"
  by (cases xs) auto

lemma doValidated_pairwise:
  "fst (doValidatedBiometricsMatchSameUser s) =
     (\<forall>u\<in>set (userIds s). \<forall>v\<in>set (userIds s). js_String u = js_String v)"
  unfolding doValidated_result all_equal_hd [symmetric]
  using short_all_equal [of "userIds s" js_String] all_equal_hd [of "userIds s" js_String]
  by blast

lemma set_userIds:
  "set (userIds s) =
     {u. \<exists>k. (k, u) \<in> set (props (validatedUserIds s)) \<and> truthy (validatedOf s k) \<and> u \<noteq> IdNull}"
  by (force simp: userIds_def validatedOf_def)

lemma filter_update_rejected:
  "(\<And>w. \<not> P (k, w)) \<Longrightarrow> filter P (AList.update k v xs) = filter P xs"
  by (induction xs) auto

lemma userIds_ignores_unvalidated:
  assumes "\<not> truthy (validatedOf s k)"
  shows "userIds (s\<lparr>validatedUserIds := assign_id (validatedUserIds s) k u\<rparr>) = userIds s"
proof -
  let ?P = "\<lambda>(type, userId). truthy (obj_get (validatedBiometrics s) type) \<and> userId \<noteq> IdNull"
  have "\<And>w. \<not> ?P (k, w)" using assms by (simp add: validatedOf_def)
  then have "filter ?P (AList.update k u (props (validatedUserIds s))) = filter ?P (props (validatedUserIds s))"
    by (rule filter_update_rejected)
  then show ?thesis
    by (simp add: userIds_def assign_id_def obj_assign_def)
qed

lemma userIds_bounded_by_count:
  assumes d: "distinct (map fst (props (validatedUserIds s)))"
      and sub: "set (map fst (props (validatedUserIds s))) \<subseteq> set (map fst (props (validatedBiometrics s)))"
  shows "length (userIds s) \<le> countValidatedBiometrics s"
proof -
  let ?P = "\<lambda>(type, userId). truthy (obj_get (validatedBiometrics s) type) \<and> userId \<noteq> IdNull"
  let ?sel = "filter ?P (props (validatedUserIds s))"
  let ?ks = "map fst ?sel"
  have dk: "distinct ?ks" using d by (rule distinct_map_filter)
  have "set ?ks \<subseteq> fst ` set (filter snd (props (validatedBiometrics s)))"
  proof
    fix k assume "k \<in> set ?ks"
    then obtain u where ku: "(k, u) \<in> set (props (validatedUserIds s))"
      and tr: "truthy (obj_get (validatedBiometrics s) k)" by auto
    from ku sub have "k \<in> fst ` set (props (validatedBiometrics s))" by force
    then obtain b where mb: "map_of (props (validatedBiometrics s)) k = Some b"
      by (metis domIff dom_map_of_conv_image_fst not_None_eq)
    with tr have "b" by (simp add: obj_get_def)
    with mb have "(k, True) \<in> set (props (validatedBiometrics s))" by (auto dest: map_of_SomeD)
    then show "k \<in> fst ` set (filter snd (props (validatedBiometrics s)))" by force
  qed
  then have "card (set ?ks) \<le> card (fst ` set (filter snd (props (validatedBiometrics s))))"
    by (intro card_mono) auto
  also have "\<dots> \<le> card (set (filter snd (props (validatedBiometrics s))))"
    by (rule card_image_le) simp
  also have "\<dots> \<le> length (filter snd (props (validatedBiometrics s)))"
    by (rule card_length)
  finally have "card (set ?ks) \<le> countValidatedBiometrics s"
    by (simp add: countValidatedBiometrics_def)
  moreover have "card (set ?ks) = length ?ks" using dk by (rule distinct_card)
  ultimately show ?thesis by (simp add: userIds_def)
qed


text \<open>
  What the checker computes, on every state. It collects the identifiers of the
  properties of \<open>validatedUserIds\<close> for which \<open>validatedBiometrics[type]\<close> is truthy
  and whose identifier is not \<open>null\<close>. With fewer than two of them it returns
  \<open>true\<close>; with two or more it returns \<open>true\<close> exactly when each equals the first
  as a string, which is when any two of them are equal as strings. The identifier stored
  for a type whose flag is not truthy has no influence on the result. In a state where
  the identifiers are stored under names that are own properties of
  \<open>validatedBiometrics\<close>, zero or one validated biometric gives \<open>true\<close>.
\<close>

lemma checker_result_on_collected_ids:
  "set (userIds s) =
     {u. \<exists>k. (k, u) \<in> set (props (validatedUserIds s)) \<and> truthy (validatedOf s k) \<and> u \<noteq> IdNull} \<and>
   (length (userIds s) < 2 \<longrightarrow> fst (doValidatedBiometricsMatchSameUser s)) \<and>
   (2 \<le> length (userIds s) \<longrightarrow>
      fst (doValidatedBiometricsMatchSameUser s) =
        (\<forall>u\<in>set (userIds s). js_String u = js_String (userIds s ! 0))) \<and>
   fst (doValidatedBiometricsMatchSameUser s) =
     (\<forall>u\<in>set (userIds s). \<forall>v\<in>set (userIds s). js_String u = js_String v) \<and>
   (\<not> truthy (validatedOf s k) \<longrightarrow>
      fst (doValidatedBiometricsMatchSameUser
             (s\<lparr>validatedUserIds := assign_id (validatedUserIds s) k u\<rparr>)) =
      fst (doValidatedBiometricsMatchSameUser s)) \<and>
   (distinct (map fst (props (validatedUserIds s))) \<and>
    set (map fst (props (validatedUserIds s))) \<subseteq> set (map fst (props (validatedBiometrics s))) \<and>
    countValidatedBiometrics s \<le> 1 \<longrightarrow>
      fst (doValidatedBiometricsMatchSameUser s))"
proof (intro conjI impI)
  show "set (userIds s) =
     {u. \<exists>k. (k, u) \<in> set (props (validatedUserIds s)) \<and> truthy (validatedOf s k) \<and> u \<noteq> IdNull}"
    by (rule set_userIds)
next
  assume "length (userIds s) < 2"
  then show "fst (doValidatedBiometricsMatchSameUser s)"
    by (simp add: doValidated_result)
next
  assume "2 \<le> length (userIds s)"
  then have "userIds s \<noteq> []" "\<not> length (userIds s) \<le> 1" by auto
  then show "fst (doValidatedBiometricsMatchSameUser s) =
        (\<forall>u\<in>set (userIds s). js_String u = js_String (userIds s ! 0))"
    by (simp add: doValidated_result hd_conv_nth)
next
  show "fst (doValidatedBiometricsMatchSameUser s) =
     (\<forall>u\<in>set (userIds s). \<forall>v\<in>set (userIds s). js_String u = js_String v)"
    by (rule doValidated_pairwise)
next
  assume "\<not> truthy (validatedOf s k)"
  then show "fst (doValidatedBiometricsMatchSameUser
             (s\<lparr>validatedUserIds := assign_id (validatedUserIds s) k u\<rparr>)) =
      fst (doValidatedBiometricsMatchSameUser s)"
    by (simp add: doValidated_result userIds_ignores_unvalidated)
next
  assume a: "distinct (map fst (props (validatedUserIds s))) \<and>
    set (map fst (props (validatedUserIds s))) \<subseteq> set (map fst (props (validatedBiometrics s))) \<and>
    countValidatedBiometrics s \<le> 1"
  then have "length (userIds s) \<le> countValidatedBiometrics s"
    by (intro userIds_bounded_by_count) auto
  with a show "fst (doValidatedBiometricsMatchSameUser s)"
    by (simp add: doValidated_result)
qed

lemma checker_result_examples:
  "fst (doValidatedBiometricsMatchSameUser
         (storeValidation ''voice'' True (IdStr ''7'')
           (setBiometricValidated ''face'' True (IdNum 7) initialState))) \<and>
   userIds (storeValidation ''voice'' True (IdStr ''7'')
           (setBiometricValidated ''face'' True (IdNum 7) initialState)) = [IdNum 7, IdStr ''7''] \<and>
   \<not> fst (doValidatedBiometricsMatchSameUser
         (storeValidation ''voice'' True (IdStr ''2'')
           (setBiometricValidated ''face'' True (IdStr ''1'') initialState))) \<and>
   \<not> truthy (validatedOf (storeValidation ''voice'' True (IdStr ''2'')
           (setBiometricValidated ''face'' True (IdStr ''1'') initialState)) ''retina'') \<and>
   countValidatedBiometrics (setBiometricValidated ''face'' True (IdStr ''1'') initialState) \<le> 1 \<and>
   length (userIds (setBiometricValidated ''face'' True (IdStr ''1'') initialState)) < 2 \<and>
   fst (doValidatedBiometricsMatchSameUser
         (setBiometricValidated ''face'' True (IdStr ''1'') initialState))"
proof -
  have ids: "userIds (storeValidation ''voice'' True (IdStr ''7'')
           (setBiometricValidated ''face'' True (IdNum 7) initialState)) = [IdNum 7, IdStr ''7'']"
    by (simp add: model_defs)
  have ids2: "userIds (storeValidation ''voice'' True (IdStr ''2'')
           (setBiometricValidated ''face'' True (IdStr ''1'') initialState)) = [IdStr ''1'', IdStr ''2'']"
    by (simp add: model_defs)
  have unv: "\<not> truthy (validatedOf (storeValidation ''voice'' True (IdStr ''2'')
           (setBiometricValidated ''face'' True (IdStr ''1'') initialState)) ''retina'')"
    by (simp add: model_defs)
  have one: "countValidatedBiometrics (setBiometricValidated ''face'' True (IdStr ''1'') initialState) \<le> 1"
    "length (userIds (setBiometricValidated ''face'' True (IdStr ''1'') initialState)) < 2"
    by (simp_all add: model_defs)
  show ?thesis
    using checker_result_on_collected_ids
          [of "storeValidation ''voice'' True (IdStr ''7'')
                 (setBiometricValidated ''face'' True (IdNum 7) initialState)" "''retina''" "IdStr ''9''"]
        checker_result_on_collected_ids
          [of "storeValidation ''voice'' True (IdStr ''2'')
                 (setBiometricValidated ''face'' True (IdStr ''1'') initialState)" "''retina''" "IdStr ''9''"]
        checker_result_on_collected_ids
          [of "setBiometricValidated ''face'' True (IdStr ''1'') initialState" "''retina''" "IdStr ''9''"]
    unfolding ids ids2
    using unv one
    by (simp add: decimal.simps)
qed

text \<open>
  C7. The checker reads the validation flag of a type as \<open>validatedBiometrics[type]\<close>,
  and for a name that \<open>validatedBiometrics\<close> only inherits from \<open>Object.prototype\<close>
  that value is truthy. After \<open>setBiometricValidated('__proto__', false)\<close>, which
  removes the prototype of \<open>validatedUserIds\<close>,
  \<open>setBiometricValidated('__proto__', true, "1")\<close>, which stores \<open>"1"\<close> under the
  name \<open>__proto__\<close>, and \<open>setBiometricValidated('face', true, "2")\<close>, exactly one
  biometric is validated, \<open>__proto__\<close> is not a biometric type and has no validation
  flag of its own, yet the checker collects both identifiers and returns \<open>false\<close>;
  the third call has recorded a security violation with the two identifiers.
\<close>

theorem C7_one_validated_factor_reported_as_mismatch:
  "reachable
     (setBiometricValidated ''face'' True (IdStr ''2'')
       (setBiometricValidated ''__proto__'' True (IdStr ''1'')
         (setBiometricValidated ''__proto__'' False IdNull initialState))) \<and>
   ''__proto__'' \<notin> set factors \<and>
   (let s = setBiometricValidated ''face'' True (IdStr ''2'')
              (setBiometricValidated ''__proto__'' True (IdStr ''1'')
                (setBiometricValidated ''__proto__'' False IdNull initialState))
    in props (validatedBiometrics s) =
         [(''face'', True), (''voice'', False), (''retina'', False), (''proximity'', False)] \<and>
       countValidatedBiometrics s = 1 \<and>
       validatedOf s ''__proto__'' = Inherited ''__proto__'' \<and>
       props (validatedUserIds s) =
         [(''face'', IdStr ''2''), (''voice'', IdNull), (''retina'', IdNull),
          (''proximity'', IdNull), (''__proto__'', IdStr ''1'')] \<and>
       userIds s = [IdStr ''2'', IdStr ''1''] \<and>
       \<not> fst (doValidatedBiometricsMatchSameUser s) \<and>
       ss_biometric_security_violation (sessionStorage s) = Some ''true'' \<and>
       ss_biometric_security_mismatch_ids (sessionStorage s) =
         Some [IdStr ''2'', IdStr ''1''])"
proof -
  have "reachable
     (setBiometricValidated ''face'' True (IdStr ''2'')
       (setBiometricValidated ''__proto__'' True (IdStr ''1'')
         (setBiometricValidated ''__proto__'' False IdNull initialState)))"
    by (intro reachable.intros)
  then show ?thesis by (simp add: model_defs)
qed

section \<open>The animation trigger\<close>

lemma effects_showCarDoorAnimation:
  "\<exists>es. effects (showCarDoorAnimation s) = effects s @ AnimationInvoked # es \<and>
        AnimationInvoked \<notin> set es"
  by (auto simp: showCarDoorAnimation_def Let_def emit_def case_prod_unfold)

lemma trigger_count_showCarDoorAnimation:
  "trigger_count (showCarDoorAnimation s) = Suc (trigger_count s)"
proof -
  obtain es where "effects (showCarDoorAnimation s) = effects s @ AnimationInvoked # es"
    and "AnimationInvoked \<notin> set es"
    using effects_showCarDoorAnimation by blast
  then show ?thesis
    by (simp add: trigger_count_def count_list_0_iff)
qed

lemma effects_securityViolation:
  "effects (securityViolation s) =
     effects s @ [ConsoleError ''Security violation details - Mismatched biometric user IDs:'',
                  MismatchAlert, SetTimeout 3000 (Redirect ''/?security_violation=true'')]"
  by (simp add: securityViolation_def Let_def emit_def)

lemma trigger_count_securityViolation:
  "trigger_count (securityViolation s) = trigger_count s"
  by (simp add: trigger_count_def effects_securityViolation)

lemma trigger_count_cong: "effects s = effects s' \<Longrightarrow> trigger_count s = trigger_count s'"
  by (simp add: trigger_count_def)

text \<open>The three outcomes of a call whose type passes the guard.\<close>

lemma setBiometricValidated_known:
  assumes "obj_get (validatedBiometrics s) type \<noteq> Undefined"
  shows "setBiometricValidated type isValidated userId s =
    (let s1 = storeValidation type isValidated userId s;
         s2 = snd (doValidatedBiometricsMatchSameUser s1)
     in if countValidatedBiometrics s1 \<ge> 2 \<and> \<not> animationVisible s \<and>
           (\<not> truthy (sessionFlagOf s type) \<and> isValidated) \<and>
           countSessionValidations s1 \<ge> 2 \<and> fst (doValidatedBiometricsMatchSameUser s1)
        then showCarDoorAnimation s2
        else if countValidatedBiometrics s1 \<ge> 2 \<and> \<not> fst (doValidatedBiometricsMatchSameUser s1)
        then securityViolation s2
        else s2)"
  using assms
  by (simp add: setBiometricValidated_def Let_def case_prod_unfold sessionFlagOf_def)

text \<open>
  C3. A call of \<open>setBiometricValidated\<close> enters \<open>showCarDoorAnimation\<close> once if its
  type passes the guard and, after the store updates, at least two biometrics are
  validated, the animation is not visible, the call is a new session validation of its
  type, at least two session flags are set and the consistency checker returns
  \<open>true\<close>; otherwise it does not enter it. From the initial state, validating
  \<open>face\<close> and then \<open>retina\<close> for user \<open>"42"\<close> enters it on the second call only, and
  validating \<open>face\<close> again afterwards does not enter it again.
\<close>

theorem C3_animation_trigger:
  "trigger_count (setBiometricValidated type isValidated userId s) =
     trigger_count s +
     (if obj_get (validatedBiometrics s) type \<noteq> Undefined \<and>
         countValidatedBiometrics (storeValidation type isValidated userId s) \<ge> 2 \<and>
         \<not> animationVisible s \<and>
         (isValidated \<and> \<not> truthy (sessionFlagOf s type)) \<and>
         countSessionValidations (storeValidation type isValidated userId s) \<ge> 2 \<and>
         fst (doValidatedBiometricsMatchSameUser (storeValidation type isValidated userId s))
      then 1 else 0) \<and>
   trigger_count initialState = 0 \<and>
   trigger_count (setBiometricValidated ''face'' True (IdStr ''42'') initialState) = 0 \<and>
   trigger_count (setBiometricValidated ''retina'' True (IdStr ''42'')
                   (setBiometricValidated ''face'' True (IdStr ''42'') initialState)) = 1"
proof -
  have general: "trigger_count (setBiometricValidated type isValidated userId s) =
     trigger_count s +
     (if obj_get (validatedBiometrics s) type \<noteq> Undefined \<and>
         countValidatedBiometrics (storeValidation type isValidated userId s) \<ge> 2 \<and>
         \<not> animationVisible s \<and>
         (isValidated \<and> \<not> truthy (sessionFlagOf s type)) \<and>
         countSessionValidations (storeValidation type isValidated userId s) \<ge> 2 \<and>
         fst (doValidatedBiometricsMatchSameUser (storeValidation type isValidated userId s))
      then 1 else 0)"
  proof (cases "obj_get (validatedBiometrics s) type = Undefined")
    case True
    then show ?thesis
      by (simp add: undefined_type_only_logs trigger_count_def emit_def)
  next
    case False
    have base: "trigger_count (snd (doValidatedBiometricsMatchSameUser
                  (storeValidation type isValidated userId s))) = trigger_count s"
      by (rule trigger_count_cong) simp
    show ?thesis
      using False base
      by (auto simp: setBiometricValidated_known [OF False] Let_def
                     trigger_count_showCarDoorAnimation trigger_count_securityViolation)
  qed
  have scenario:
    "trigger_count initialState = 0"
    "trigger_count (setBiometricValidated ''face'' True (IdStr ''42'') initialState) = 0"
    "trigger_count (setBiometricValidated ''retina'' True (IdStr ''42'')
                   (setBiometricValidated ''face'' True (IdStr ''42'') initialState)) = 1"
    by (simp_all add: model_defs)
  from general scenario show ?thesis by blast
qed

theorem C3_witness:
  "trigger_count (setBiometricValidated ''face'' True (IdStr ''42'')
      (setBiometricValidated ''retina'' True (IdStr ''42'')
        (setBiometricValidated ''face'' True (IdStr ''42'') initialState))) = 1 \<and>
   animationVisible (setBiometricValidated ''retina'' True (IdStr ''42'')
        (setBiometricValidated ''face'' True (IdStr ''42'') initialState))"
proof -
  have vis: "animationVisible (setBiometricValidated ''retina'' True (IdStr ''42'')
        (setBiometricValidated ''face'' True (IdStr ''42'') initialState))"
    by (simp add: model_defs)
  show ?thesis
    using C3_animation_trigger
            [of "''face''" True "IdStr ''42''"
                "setBiometricValidated ''retina'' True (IdStr ''42'')
                   (setBiometricValidated ''face'' True (IdStr ''42'') initialState)"]
          vis
    by simp
qed

section \<open>The outcomes of a call\<close>

lemma emit_fields [simp]:
  "validatedBiometrics (emit es s) = validatedBiometrics s"
  "sessionValidations (emit es s) = sessionValidations s"
  "validatedUserIds (emit es s) = validatedUserIds s"
  "animationVisible (emit es s) = animationVisible s"
  "localStorage (emit es s) = localStorage s"
  "sessionStorage (emit es s) = sessionStorage s"
  "effects (emit es s) = effects s @ es"
  by (simp_all add: emit_def)

lemma securityViolation_fields:
  "validatedBiometrics (securityViolation s) = assign_all False (validatedBiometrics s)"
  "sessionValidations (securityViolation s) = assign_all False (sessionValidations s)"
  "validatedUserIds (securityViolation s) = assign_all IdNull (validatedUserIds s)"
  "animationVisible (securityViolation s) = False"
  "localStorage (securityViolation s) =
     (localStorage s)
       \<lparr>ls_validatedBiometrics := Json (props (assign_all False (validatedBiometrics s))),
        ls_sessionValidations := Json (props (assign_all False (sessionValidations s))),
        ls_validatedUserIds := Json (props (assign_all IdNull (validatedUserIds s))),
        ls_validatedUserData := None\<rparr>"
  "sessionStorage (securityViolation s) =
     (sessionStorage s)
       \<lparr>ss_biometric_security_violation := Some ''true'',
        ss_biometric_security_violation_details :=
          Some (ByType (map (\<lambda>type. (type, userIdOf s type))
                          (map fst (filter snd (props (validatedBiometrics s)))))),
        ss_has_shown_biometric_welcome := None\<rparr>"
  by (simp_all add: securityViolation_def resetBiometricValidations_def Let_def save_defs
                    userIdOf_def)

lemma userIds_cong:
  "validatedBiometrics s = validatedBiometrics s' \<Longrightarrow>
   validatedUserIds s = validatedUserIds s' \<Longrightarrow> userIds s = userIds s'"
  by (simp add: userIds_def)

lemma match_cong:
  "validatedBiometrics s = validatedBiometrics s' \<Longrightarrow>
   validatedUserIds s = validatedUserIds s' \<Longrightarrow>
   fst (doValidatedBiometricsMatchSameUser s) = fst (doValidatedBiometricsMatchSameUser s')"
  by (simp add: doValidated_result userIds_cong [of s s'])

lemma count_cong:
  "validatedBiometrics s = validatedBiometrics s' \<Longrightarrow>
   countValidatedBiometrics s = countValidatedBiometrics s'"
  by (simp add: countValidatedBiometrics_def)

lemma count_assign_all_False: "length (filter snd (props (assign_all False ob))) = 0"
  by (simp add: assign_all_def case_prod_unfold)

lemma showCarDoorAnimation_cases:
  "showCarDoorAnimation s =
     (let s1 = snd (doValidatedBiometricsMatchSameUser (emit [AnimationInvoked] s));
          validatedTypes = map fst (filter snd (props (validatedBiometrics s)));
          biometricUserIds = map (obj_get (validatedUserIds s)) validatedTypes
      in if animation_blocked s
         then
           emit [SetTimeout 3000 (RemoveAlertAndRedirect ''/?security_violation=true'')]
             (resetBiometricValidations
               (emit [AnimationBlockedAlert]
                 ((emit [ConsoleError ''SECURITY ALERT: Car door animation blocked due to mismatched user biometrics!'',
                         ConsoleError ''Security violation details:''] s1)
                   \<lparr>sessionStorage := (sessionStorage s1)
                         \<lparr>ss_biometric_security_violation := Some ''true'',
                          ss_biometric_security_violation_details :=
                            Some (MismatchInfo validatedTypes biometricUserIds)\<rparr>\<rparr>)))
         else
           emit [OverlayShown, Fetch ''/static/images/vehicles/audi/animation/car-doors.svg'']
             (s1\<lparr>animationVisible := True\<rparr>))"
proof -
  have m: "fst (doValidatedBiometricsMatchSameUser (emit [AnimationInvoked] s)) =
        fst (doValidatedBiometricsMatchSameUser s)"
    by (rule match_cong) (simp_all add: emit_def)
  have v: "validatedBiometrics (snd (doValidatedBiometricsMatchSameUser (emit [AnimationInvoked] s))) = validatedBiometrics s"
       "validatedUserIds (snd (doValidatedBiometricsMatchSameUser (emit [AnimationInvoked] s))) = validatedUserIds s"
    by (simp_all add: emit_def)
  show ?thesis
    unfolding showCarDoorAnimation_def animation_blocked_def Let_def case_prod_unfold v m
    by (simp add: emit_def)
qed

lemma showCarDoorAnimation_blocked:
  assumes "animation_blocked s"
  shows "validatedBiometrics (showCarDoorAnimation s) = assign_all False (validatedBiometrics s)"
    "sessionValidations (showCarDoorAnimation s) = assign_all False (sessionValidations s)"
    "validatedUserIds (showCarDoorAnimation s) = assign_all IdNull (validatedUserIds s)"
    "animationVisible (showCarDoorAnimation s) = False"
  using assms
  by (simp_all add: showCarDoorAnimation_cases Let_def)

lemma showCarDoorAnimation_shown:
  assumes "\<not> animation_blocked s"
  shows "validatedBiometrics (showCarDoorAnimation s) = validatedBiometrics s"
    "sessionValidations (showCarDoorAnimation s) = sessionValidations s"
    "validatedUserIds (showCarDoorAnimation s) = validatedUserIds s"
    "animationVisible (showCarDoorAnimation s) = True"
    "sessionStorage (showCarDoorAnimation s) = sessionStorage s"
    "localStorage (showCarDoorAnimation s) = localStorage s"
proof -
  have m: "fst (doValidatedBiometricsMatchSameUser (emit [AnimationInvoked] s))"
    using assms match_cong [of "emit [AnimationInvoked] s" s]
    by (simp add: animation_blocked_def emit_def)
  then have st: "snd (doValidatedBiometricsMatchSameUser (emit [AnimationInvoked] s)) = emit [AnimationInvoked] s"
    by (simp add: doValidated_state)
  show "validatedBiometrics (showCarDoorAnimation s) = validatedBiometrics s"
    "sessionValidations (showCarDoorAnimation s) = sessionValidations s"
    "validatedUserIds (showCarDoorAnimation s) = validatedUserIds s"
    "animationVisible (showCarDoorAnimation s) = True"
    "sessionStorage (showCarDoorAnimation s) = sessionStorage s"
    "localStorage (showCarDoorAnimation s) = localStorage s"
    using assms
    by (simp_all add: showCarDoorAnimation_cases Let_def st)
qed

section \<open>The security-violation flow\<close>

lemma count_reset [simp]: "countValidatedBiometrics (resetBiometricValidations s) = 0"
  by (simp add: countValidatedBiometrics_def count_assign_all_False)

lemma count_securityViolation [simp]: "countValidatedBiometrics (securityViolation s) = 0"
  by (simp add: countValidatedBiometrics_def securityViolation_fields count_assign_all_False)

lemma at_rest_cong:
  "validatedBiometrics s = validatedBiometrics s' \<Longrightarrow>
   validatedUserIds s = validatedUserIds s' \<Longrightarrow>
   at_rest_consistent s = at_rest_consistent s'"
  by (simp add: at_rest_consistent_def count_cong [of s s'] match_cong [of s s'])

lemma at_rest_showCarDoorAnimation: "at_rest_consistent (showCarDoorAnimation s)"
proof (cases "animation_blocked s")
  case True
  then have "countValidatedBiometrics (showCarDoorAnimation s) = 0"
    by (simp add: countValidatedBiometrics_def showCarDoorAnimation_blocked count_assign_all_False)
  then show ?thesis by (simp add: at_rest_consistent_def)
next
  case False
  then have "fst (doValidatedBiometricsMatchSameUser s)"
    by (simp add: animation_blocked_def)
  moreover have "fst (doValidatedBiometricsMatchSameUser (showCarDoorAnimation s)) =
      fst (doValidatedBiometricsMatchSameUser s)"
    by (rule match_cong) (simp_all add: showCarDoorAnimation_shown [OF False])
  ultimately show ?thesis by (simp add: at_rest_consistent_def)
qed

lemma at_rest_setBiometricValidated:
  assumes "at_rest_consistent s"
  shows "at_rest_consistent (setBiometricValidated type isValidated userId s)"
proof (cases "obj_get (validatedBiometrics s) type = Undefined")
  case True
  have "at_rest_consistent (emit [ConsoleError (''Unknown biometric type: '' @ type)] s) =
        at_rest_consistent s"
    by (rule at_rest_cong) simp_all
  with assms True show ?thesis by (simp add: undefined_type_only_logs)
next
  case False
  let ?s1 = "storeValidation type isValidated userId s"
  let ?s2 = "snd (doValidatedBiometricsMatchSameUser ?s1)"
  have s2: "at_rest_consistent ?s2 = at_rest_consistent ?s1"
    by (rule at_rest_cong) simp_all
  show ?thesis
    unfolding setBiometricValidated_known [OF False] Let_def
    by (auto simp: at_rest_showCarDoorAnimation s2)
       (simp_all add: at_rest_consistent_def)
qed

lemma reachable_at_rest_consistent: "reachable s \<Longrightarrow> at_rest_consistent s"
proof (induction rule: reachable.induct)
  case r_init
  show ?case by (simp add: at_rest_consistent_def initialState_def countValidatedBiometrics_def default_flags_def)
next
  case (r_setBiometricValidated s type isValidated userId)
  then show ?case by (simp add: at_rest_setBiometricValidated)
next
  case (r_resetBiometricValidations s)
  show ?case by (simp add: at_rest_consistent_def)
next
  case (r_resetSessionValidations s)
  have "at_rest_consistent (resetSessionValidations s) = at_rest_consistent s"
    by (rule at_rest_cong) (simp_all add: resetSessionValidations_def Let_def save_defs)
  with r_resetSessionValidations show ?case by simp
next
  case (r_setSessionValidation s type isValidated)
  have "at_rest_consistent (snd (setSessionValidation type isValidated s)) = at_rest_consistent s"
    by (rule at_rest_cong) (simp_all add: setSessionValidation_def Let_def save_defs)
  with r_setSessionValidation show ?case by simp
next
  case (r_showCarDoorAnimation s)
  show ?case by (rule at_rest_showCarDoorAnimation)
next
  case (r_hideCleanup s)
  have "at_rest_consistent (hideCleanup s) = at_rest_consistent s"
    by (rule at_rest_cong) (simp_all add: hideCleanup_def)
  with r_hideCleanup show ?case by simp
qed


text \<open>
  C2. A call of \<open>setBiometricValidated\<close> whose type passes the guard and whose store
  updates leave at least two validated biometrics and a mismatch reported by the
  consistency checker runs the security-violation flow: the violation marker, the
  mismatched identifiers and the identifiers by type are in \<open>sessionStorage\<close>; every
  validation flag, session flag and identifier is reset, in memory and in
  \<open>localStorage\<close>; the alert is shown and the redirect to
  \<open>/?security_violation=true\<close> is scheduled after 3000 ms; the animation is not
  entered. Moreover no state reachable from the first load holds two validated
  biometrics together with a mismatch.
\<close>

theorem C2_mismatch_triggers_violation_flow:
  "(obj_get (validatedBiometrics s) type \<noteq> Undefined \<and>
    2 \<le> countValidatedBiometrics (storeValidation type isValidated userId s) \<and>
    \<not> fst (doValidatedBiometricsMatchSameUser (storeValidation type isValidated userId s)) \<longrightarrow>
    (let s1 = storeValidation type isValidated userId s;
         r = setBiometricValidated type isValidated userId s
     in ss_biometric_security_violation (sessionStorage r) = Some ''true'' \<and>
        ss_biometric_security_mismatch_ids (sessionStorage r) = Some (userIds s1) \<and>
        ss_biometric_security_violation_details (sessionStorage r) =
          Some (ByType (map (\<lambda>k. (k, userIdOf s1 k))
                          (map fst (filter snd (props (validatedBiometrics s1)))))) \<and>
        r = securityViolation (snd (doValidatedBiometricsMatchSameUser s1)) \<and>
        map fst (props (validatedBiometrics r)) = map fst (props (validatedBiometrics s1)) \<and>
        snd ` set (props (validatedBiometrics r)) \<subseteq> {False} \<and>
        map fst (props (validatedUserIds r)) = map fst (props (validatedUserIds s1)) \<and>
        snd ` set (props (validatedUserIds r)) \<subseteq> {IdNull} \<and>
        snd ` set (props (sessionValidations r)) \<subseteq> {False} \<and>
        ls_validatedBiometrics (localStorage r) = Json (props (validatedBiometrics r)) \<and>
        ls_validatedUserIds (localStorage r) = Json (props (validatedUserIds r)) \<and>
        ls_sessionValidations (localStorage r) = Json (props (sessionValidations r)) \<and>
        countValidatedBiometrics r = 0 \<and>
        effects r =
          effects s @
          [ConsoleError ''Security violation details - Mismatched biometric user IDs:'',
           MismatchAlert,
           SetTimeout 3000 (Redirect ''/?security_violation=true'')] \<and>
        trigger_count r = trigger_count s)) \<and>
   (reachable s \<longrightarrow> 2 \<le> countValidatedBiometrics s \<longrightarrow>
      fst (doValidatedBiometricsMatchSameUser s))"
proof (intro conjI impI)
  assume a: "obj_get (validatedBiometrics s) type \<noteq> Undefined \<and>
    2 \<le> countValidatedBiometrics (storeValidation type isValidated userId s) \<and>
    \<not> fst (doValidatedBiometricsMatchSameUser (storeValidation type isValidated userId s))"
  let ?s1 = "storeValidation type isValidated userId s"
  let ?s2 = "snd (doValidatedBiometricsMatchSameUser ?s1)"
  let ?r = "setBiometricValidated type isValidated userId s"
  from a have known: "obj_get (validatedBiometrics s) type \<noteq> Undefined" by simp
  have r: "?r = securityViolation ?s2"
    using a by (simp add: setBiometricValidated_known [OF known] Let_def)
  have s2: "sessionStorage ?s2 =
      (sessionStorage ?s1)\<lparr>ss_biometric_security_violation := Some ''true'',
                           ss_biometric_security_mismatch_ids := Some (userIds ?s1)\<rparr>"
    using a by (simp add: doValidated_state)
  have ids: "userIdOf ?s2 = userIdOf ?s1"
    by (simp add: userIdOf_def [abs_def])
  have eff: "effects ?r = effects s @
          [ConsoleError ''Security violation details - Mismatched biometric user IDs:'',
           MismatchAlert,
           SetTimeout 3000 (Redirect ''/?security_violation=true'')]"
    by (simp add: r effects_securityViolation)
  have tc: "trigger_count ?r = trigger_count s"
    by (simp add: trigger_count_def eff)
  show "let s1 = ?s1; r = ?r
     in ss_biometric_security_violation (sessionStorage r) = Some ''true'' \<and>
        ss_biometric_security_mismatch_ids (sessionStorage r) = Some (userIds s1) \<and>
        ss_biometric_security_violation_details (sessionStorage r) =
          Some (ByType (map (\<lambda>k. (k, userIdOf s1 k))
                          (map fst (filter snd (props (validatedBiometrics s1)))))) \<and>
        r = securityViolation (snd (doValidatedBiometricsMatchSameUser s1)) \<and>
        map fst (props (validatedBiometrics r)) = map fst (props (validatedBiometrics s1)) \<and>
        snd ` set (props (validatedBiometrics r)) \<subseteq> {False} \<and>
        map fst (props (validatedUserIds r)) = map fst (props (validatedUserIds s1)) \<and>
        snd ` set (props (validatedUserIds r)) \<subseteq> {IdNull} \<and>
        snd ` set (props (sessionValidations r)) \<subseteq> {False} \<and>
        ls_validatedBiometrics (localStorage r) = Json (props (validatedBiometrics r)) \<and>
        ls_validatedUserIds (localStorage r) = Json (props (validatedUserIds r)) \<and>
        ls_sessionValidations (localStorage r) = Json (props (sessionValidations r)) \<and>
        countValidatedBiometrics r = 0 \<and>
        effects r =
          effects s @
          [ConsoleError ''Security violation details - Mismatched biometric user IDs:'',
           MismatchAlert,
           SetTimeout 3000 (Redirect ''/?security_violation=true'')] \<and>
        trigger_count r = trigger_count s"
    unfolding Let_def
    apply (intro conjI)
                  apply (simp_all only: eff tc)
                apply (simp_all add: r securityViolation_fields s2 ids assign_all_keys assign_all_values
                        del: storeValidation_fields)
    done
next
  assume "reachable s" "2 \<le> countValidatedBiometrics s"
  then show "fst (doValidatedBiometricsMatchSameUser s)"
    using reachable_at_rest_consistent [of s] by (simp add: at_rest_consistent_def)
qed


theorem C2_witness:
  "obj_get (validatedBiometrics (setBiometricValidated ''face'' True (IdStr ''1'') initialState))
     ''voice'' \<noteq> Undefined \<and>
   2 \<le> countValidatedBiometrics
         (storeValidation ''voice'' True (IdStr ''2'')
           (setBiometricValidated ''face'' True (IdStr ''1'') initialState)) \<and>
   \<not> fst (doValidatedBiometricsMatchSameUser
           (storeValidation ''voice'' True (IdStr ''2'')
             (setBiometricValidated ''face'' True (IdStr ''1'') initialState))) \<and>
   reachable (setBiometricValidated ''face'' True (IdStr ''1'') initialState) \<and>
   ss_biometric_security_mismatch_ids
     (sessionStorage
       (setBiometricValidated ''voice'' True (IdStr ''2'')
         (setBiometricValidated ''face'' True (IdStr ''1'') initialState))) =
     Some [IdStr ''1'', IdStr ''2''] \<and>
   countValidatedBiometrics
     (setBiometricValidated ''voice'' True (IdStr ''2'')
       (setBiometricValidated ''face'' True (IdStr ''1'') initialState)) = 0 \<and>
   effects
     (setBiometricValidated ''voice'' True (IdStr ''2'')
       (setBiometricValidated ''face'' True (IdStr ''1'') initialState)) =
     [ConsoleError ''Security violation details - Mismatched biometric user IDs:'',
      MismatchAlert,
      SetTimeout 3000 (Redirect ''/?security_violation=true'')]"
proof -
  have known: "obj_get (validatedBiometrics (setBiometricValidated ''face'' True (IdStr ''1'') initialState))
     ''voice'' \<noteq> Undefined"
    by (simp add: model_defs)
  have two: "2 \<le> countValidatedBiometrics
         (storeValidation ''voice'' True (IdStr ''2'')
           (setBiometricValidated ''face'' True (IdStr ''1'') initialState))"
    by (simp add: model_defs)
  have ids: "userIds (storeValidation ''voice'' True (IdStr ''2'')
           (setBiometricValidated ''face'' True (IdStr ''1'') initialState)) = [IdStr ''1'', IdStr ''2'']"
    by (simp add: model_defs)
  have mis: "\<not> fst (doValidatedBiometricsMatchSameUser
           (storeValidation ''voice'' True (IdStr ''2'')
             (setBiometricValidated ''face'' True (IdStr ''1'') initialState)))"
    by (simp add: doValidated_result ids)
  have eff: "effects (setBiometricValidated ''face'' True (IdStr ''1'') initialState) = []"
    by (simp add: model_defs)
  have re: "reachable (setBiometricValidated ''face'' True (IdStr ''1'') initialState)"
    by (intro reachable.intros)
  have flow:
    "ss_biometric_security_mismatch_ids
       (sessionStorage
         (setBiometricValidated ''voice'' True (IdStr ''2'')
           (setBiometricValidated ''face'' True (IdStr ''1'') initialState))) =
       Some (userIds (storeValidation ''voice'' True (IdStr ''2'')
           (setBiometricValidated ''face'' True (IdStr ''1'') initialState))) \<and>
     countValidatedBiometrics
       (setBiometricValidated ''voice'' True (IdStr ''2'')
         (setBiometricValidated ''face'' True (IdStr ''1'') initialState)) = 0 \<and>
     effects
       (setBiometricValidated ''voice'' True (IdStr ''2'')
         (setBiometricValidated ''face'' True (IdStr ''1'') initialState)) =
       effects (setBiometricValidated ''face'' True (IdStr ''1'') initialState) @
       [ConsoleError ''Security violation details - Mismatched biometric user IDs:'',
        MismatchAlert,
        SetTimeout 3000 (Redirect ''/?security_violation=true'')]"
    using C2_mismatch_triggers_violation_flow
            [of "setBiometricValidated ''face'' True (IdStr ''1'') initialState"
                "''voice''" True "IdStr ''2''"]
          known two mis
    unfolding Let_def by blast
  show ?thesis
    using flow known two mis re
    by (simp only: ids eff append_Nil simp_thms)
qed

section \<open>The page-load replay\<close>

lemma moduleInit_session_flags:
  assumes "moduleInit ls ss = Inr s"
  shows "(ls_sessionValidations (localStorage s) = Json (props (sessionValidations s)) \<or>
          ls_sessionValidations (localStorage s) = Absent \<and>
          props (sessionValidations s) = default_flags) \<and>
         \<not> animationVisible s \<and> effects s = []"
  using assms
  by (auto simp: moduleInit_def parse_or_default_def split: item.splits)

lemma onDOMContentLoaded_in_sync:
  assumes "ls_sessionValidations (localStorage s) = Json (props (sessionValidations s)) \<or>
           ls_sessionValidations (localStorage s) = Absent \<and>
           props (sessionValidations s) = default_flags"
  shows "onDOMContentLoaded s =
           (if 2 \<le> countValidatedBiometrics s \<and> \<not> animationVisible s \<and>
               2 \<le> countSessionValidations s
            then emit [SetTimeout 500 CallShowCarDoorAnimation] s else s)"
  using assms
  by (auto simp: onDOMContentLoaded_def countSessionValidations_def Let_def)

text \<open>
  C6. When the script has just been loaded, and more generally whenever the session
  flags in \<open>localStorage\<close> are those in memory, the page-load handler schedules
  \<open>showCarDoorAnimation\<close> exactly when at least two biometrics are validated, at least
  two session flags are set and the animation is not visible; with fewer than two
  session flags it schedules nothing and leaves the state as it is, however many
  biometrics are validated.
\<close>

theorem C6_page_load_replay:
  "(moduleInit ls ss = Inr s \<longrightarrow>
      effects (onDOMContentLoaded s) =
        (if 2 \<le> countValidatedBiometrics s \<and> 2 \<le> countSessionValidations s \<and>
            \<not> animationVisible s
         then [SetTimeout 500 CallShowCarDoorAnimation] else [])) \<and>
   (ls_sessionValidations (localStorage s) = Json (props (sessionValidations s)) \<or>
    ls_sessionValidations (localStorage s) = Absent \<and>
    props (sessionValidations s) = default_flags \<longrightarrow>
      effects (onDOMContentLoaded s) =
        effects s @
        (if 2 \<le> countValidatedBiometrics s \<and> 2 \<le> countSessionValidations s \<and>
            \<not> animationVisible s
         then [SetTimeout 500 CallShowCarDoorAnimation] else []) \<and>
      (countSessionValidations s < 2 \<longrightarrow> onDOMContentLoaded s = s))"
proof (intro conjI impI)
  assume "moduleInit ls ss = Inr s"
  from moduleInit_session_flags [OF this]
  show "effects (onDOMContentLoaded s) =
        (if 2 \<le> countValidatedBiometrics s \<and> 2 \<le> countSessionValidations s \<and>
            \<not> animationVisible s
         then [SetTimeout 500 CallShowCarDoorAnimation] else [])"
    by (simp add: onDOMContentLoaded_in_sync)
next
  assume a: "ls_sessionValidations (localStorage s) = Json (props (sessionValidations s)) \<or>
    ls_sessionValidations (localStorage s) = Absent \<and>
    props (sessionValidations s) = default_flags"
  show "effects (onDOMContentLoaded s) =
        effects s @
        (if 2 \<le> countValidatedBiometrics s \<and> 2 \<le> countSessionValidations s \<and>
            \<not> animationVisible s
         then [SetTimeout 500 CallShowCarDoorAnimation] else [])"
    by (simp add: onDOMContentLoaded_in_sync [OF a])
  assume "countSessionValidations s < 2"
  then show "onDOMContentLoaded s = s"
    by (simp add: onDOMContentLoaded_in_sync [OF a])
qed

theorem C6_witness:
  "(\<exists>s'. reloadPage (setBiometricValidated ''voice'' True (IdStr ''7'')
                      (setBiometricValidated ''face'' True (IdStr ''7'') initialState)) = Inr s' \<and>
         effects (onDOMContentLoaded s') = [SetTimeout 500 CallShowCarDoorAnimation]) \<and>
   (\<exists>s'. reloadPage (resetSessionValidations
                      (setBiometricValidated ''voice'' True (IdStr ''7'')
                        (setBiometricValidated ''face'' True (IdStr ''7'') initialState))) = Inr s' \<and>
         2 \<le> countValidatedBiometrics s' \<and> countSessionValidations s' < 2 \<and>
         effects (onDOMContentLoaded s') = [])"
proof -
  let ?S = "setBiometricValidated ''voice'' True (IdStr ''7'')
              (setBiometricValidated ''face'' True (IdStr ''7'') initialState)"
  let ?a = "projr (reloadPage ?S)"
  let ?b = "projr (reloadPage (resetSessionValidations ?S))"
  have a: "reloadPage ?S = Inr ?a" "2 \<le> countValidatedBiometrics ?a"
    "2 \<le> countSessionValidations ?a" "\<not> animationVisible ?a"
    by (simp_all add: reloadPage_def model_defs)
  have b: "reloadPage (resetSessionValidations ?S) = Inr ?b" "2 \<le> countValidatedBiometrics ?b"
    "countSessionValidations ?b < 2"
    by (simp_all add: reloadPage_def model_defs)
  have "effects (onDOMContentLoaded ?a) = [SetTimeout 500 CallShowCarDoorAnimation]"
    using C6_page_load_replay [of "localStorage ?S" "sessionStorage ?S" ?a] a
    unfolding reloadPage_def by simp
  moreover have "effects (onDOMContentLoaded ?b) = []"
    using C6_page_load_replay
            [of "localStorage (resetSessionValidations ?S)"
                "sessionStorage (resetSessionValidations ?S)" ?b] b
    unfolding reloadPage_def by simp
  ultimately show ?thesis using a b by blast
qed

section \<open>No stale identity\<close>

lemma setBiometricValidated_outcomes:
  assumes "obj_get (validatedBiometrics s) type \<noteq> Undefined"
  shows "setBiometricValidated type isValidated userId s \<in>
     {showCarDoorAnimation (snd (doValidatedBiometricsMatchSameUser
                                  (storeValidation type isValidated userId s))),
      securityViolation (snd (doValidatedBiometricsMatchSameUser
                                  (storeValidation type isValidated userId s))),
      snd (doValidatedBiometricsMatchSameUser (storeValidation type isValidated userId s))}"
  by (simp add: setBiometricValidated_known [OF assms] Let_def)

lemma setBiometricValidated_invalidate:
  assumes "obj_get (validatedBiometrics s) type \<noteq> Undefined"
  shows "setBiometricValidated type False userId s \<in>
     {securityViolation (snd (doValidatedBiometricsMatchSameUser
                                  (storeValidation type False userId s))),
      snd (doValidatedBiometricsMatchSameUser (storeValidation type False userId s))}"
  by (simp add: setBiometricValidated_known [OF assms] Let_def)

lemma no_stale_cong:
  "validatedBiometrics s = validatedBiometrics s' \<Longrightarrow>
   validatedUserIds s = validatedUserIds s' \<Longrightarrow>
   no_stale_identity s = no_stale_identity s'"
  by (simp add: no_stale_identity_def validatedOf_def userIdOf_def)

lemma no_stale_zeroed:
  assumes "no_stale_identity s"
      and "validatedBiometrics r = assign_all False (validatedBiometrics s)"
      and "validatedUserIds r = assign_all IdNull (validatedUserIds s)"
  shows "no_stale_identity r"
  unfolding no_stale_identity_def
proof
  fix f assume "f \<in> set factors"
  with assms(1) obtain b u where "validatedOf s f = Own b" "userIdOf s f = Own u"
    unfolding no_stale_identity_def by blast
  then have "validatedOf r f = Own False" "userIdOf r f = Own IdNull"
    using assms(2,3) by (simp_all add: validatedOf_def userIdOf_def obj_get_assign_all)
  then show "(\<exists>b. validatedOf r f = Own b) \<and> (\<exists>u. userIdOf r f = Own u) \<and>
        (userIdOf r f \<noteq> Own IdNull \<longrightarrow> validatedOf r f = Own True)"
    by auto
qed

lemma no_stale_storeValidation:
  assumes "no_stale_identity s"
  shows "no_stale_identity (storeValidation type isValidated userId s)"
  unfolding no_stale_identity_def
proof
  fix f assume f: "f \<in> set factors"
  then have ni: "f \<notin> set object_prototype_names" by (rule factor_not_inherited)
  from assms f have old:
    "\<exists>b. validatedOf s f = Own b" "\<exists>u. userIdOf s f = Own u"
    "userIdOf s f \<noteq> Own IdNull \<longrightarrow> validatedOf s f = Own True"
    by (auto simp: no_stale_identity_def)
  let ?s1 = "storeValidation type isValidated userId s"
  have v: "validatedOf ?s1 f = (if type = f then Own isValidated else validatedOf s f)"
    by (simp add: validatedOf_def assign_flag_def obj_get_assign [OF ni])
  have u: "userIdOf ?s1 f =
      (if type = f \<and> (isValidated \<longrightarrow> userId \<noteq> IdNull)
       then Own (if isValidated then userId else IdNull) else userIdOf s f)"
    by (simp add: userIdOf_def assign_id_def obj_get_assign [OF ni])
  show "(\<exists>b. validatedOf ?s1 f = Own b) \<and> (\<exists>u. userIdOf ?s1 f = Own u) \<and>
        (userIdOf ?s1 f \<noteq> Own IdNull \<longrightarrow> validatedOf ?s1 f = Own True)"
    using old unfolding v u by auto
qed

lemma no_stale_showCarDoorAnimation:
  assumes "no_stale_identity s"
  shows "no_stale_identity (showCarDoorAnimation s)"
proof (cases "animation_blocked s")
  case True
  show ?thesis
    by (rule no_stale_zeroed [OF assms]) (simp_all add: showCarDoorAnimation_blocked [OF True])
next
  case False
  have "no_stale_identity (showCarDoorAnimation s) = no_stale_identity s"
    by (rule no_stale_cong) (simp_all add: showCarDoorAnimation_shown [OF False])
  with assms show ?thesis by simp
qed

lemma no_stale_setBiometricValidated:
  assumes "no_stale_identity s"
  shows "no_stale_identity (setBiometricValidated type isValidated userId s)"
proof (cases "obj_get (validatedBiometrics s) type = Undefined")
  case True
  have "no_stale_identity (emit [ConsoleError (''Unknown biometric type: '' @ type)] s) =
        no_stale_identity s"
    by (rule no_stale_cong) simp_all
  with assms True show ?thesis by (simp add: undefined_type_only_logs)
next
  case False
  let ?s1 = "storeValidation type isValidated userId s"
  let ?s2 = "snd (doValidatedBiometricsMatchSameUser ?s1)"
  have s1: "no_stale_identity ?s1" using assms by (rule no_stale_storeValidation)
  have "no_stale_identity ?s2 = no_stale_identity ?s1"
    by (rule no_stale_cong) simp_all
  with s1 have s2: "no_stale_identity ?s2" by simp
  have sv: "no_stale_identity (securityViolation ?s2)"
    by (rule no_stale_zeroed [OF s2]) (simp_all add: securityViolation_fields)
  show ?thesis
    using setBiometricValidated_outcomes [OF False, of isValidated userId]
          s2 sv no_stale_showCarDoorAnimation [OF s2]
    by auto
qed

lemma no_stale_resetBiometricValidations:
  "no_stale_identity s \<Longrightarrow> no_stale_identity (resetBiometricValidations s)"
  by (erule no_stale_zeroed) simp_all

lemma no_stale_resetSessionValidations:
  "no_stale_identity (resetSessionValidations s) = no_stale_identity s"
  by (rule no_stale_cong) (simp_all add: resetSessionValidations_def Let_def save_defs)

lemma no_stale_setSessionValidation:
  "no_stale_identity (snd (setSessionValidation type isValidated s)) = no_stale_identity s"
  by (rule no_stale_cong) (simp_all add: setSessionValidation_def Let_def save_defs)

lemma no_stale_initialState: "no_stale_identity initialState"
  by (simp add: no_stale_identity_def model_defs, blast)

lemma reachable_no_stale_identity: "reachable s \<Longrightarrow> no_stale_identity s"
proof (induction rule: reachable.induct)
  case r_init
  show ?case by (rule no_stale_initialState)
next
  case (r_hideCleanup s)
  have "no_stale_identity (hideCleanup s) = no_stale_identity s"
    by (rule no_stale_cong) (simp_all add: hideCleanup_def)
  with r_hideCleanup show ?case by simp
qed (simp_all add: no_stale_setBiometricValidated no_stale_resetBiometricValidations
       no_stale_resetSessionValidations no_stale_setSessionValidation
       no_stale_showCarDoorAnimation)

lemma invalidate_clears_identity:
  assumes f: "f \<in> set factors" and known: "validatedOf s f \<noteq> Undefined"
  shows "userIdOf (setBiometricValidated f False userId s) f = Own IdNull \<and>
         validatedOf (setBiometricValidated f False userId s) f = Own False"
proof -
  from f have ni: "f \<notin> set object_prototype_names" by (rule factor_not_inherited)
  from known have k: "obj_get (validatedBiometrics s) f \<noteq> Undefined" by (simp add: validatedOf_def)
  let ?s1 = "storeValidation f False userId s"
  let ?s2 = "snd (doValidatedBiometricsMatchSameUser ?s1)"
  have u: "obj_get (validatedUserIds ?s1) f = Own IdNull"
    by (simp add: assign_id_def obj_get_assign [OF ni])
  have v: "obj_get (validatedBiometrics ?s1) f = Own False"
    by (simp add: assign_flag_def obj_get_assign [OF ni])
  have a: "userIdOf ?s2 f = Own IdNull \<and> validatedOf ?s2 f = Own False"
    using u v by (simp add: userIdOf_def validatedOf_def del: storeValidation_fields)
  have b: "userIdOf (securityViolation ?s2) f = Own IdNull \<and>
           validatedOf (securityViolation ?s2) f = Own False"
    using u v
    by (simp add: userIdOf_def validatedOf_def securityViolation_fields obj_get_assign_all
             del: storeValidation_fields)
  from setBiometricValidated_invalidate [OF k, of userId]
  have "setBiometricValidated f False userId s = securityViolation ?s2 \<or>
        setBiometricValidated f False userId s = ?s2" by simp
  with a b show ?thesis by metis
qed


text \<open>
  C5. In every state reachable from the first load by the operations of the script,
  each of the four biometric types has a stored identifier that is \<open>null\<close> unless
  its validation flag is \<open>true\<close>. The invariant is preserved by
  \<open>setBiometricValidated\<close>, \<open>resetBiometricValidations\<close> and
  \<open>resetSessionValidations\<close> from any state that satisfies it. Invalidating a
  biometric type, \<open>setBiometricValidated(f, false)\<close>, leaves its identifier \<open>null\<close>
  and its flag \<open>false\<close> whatever was stored before.
\<close>

theorem C5_no_stale_identity:
  "(reachable s \<longrightarrow> no_stale_identity s) \<and>
   (reachable s \<and> f \<in> set factors \<longrightarrow>
      (\<exists>u. userIdOf s f = Own u) \<and>
      (userIdOf s f \<noteq> Own IdNull \<longrightarrow> validatedOf s f = Own True)) \<and>
   (no_stale_identity s \<longrightarrow>
      no_stale_identity (setBiometricValidated type isValidated userId s) \<and>
      no_stale_identity (resetBiometricValidations s) \<and>
      no_stale_identity (resetSessionValidations s)) \<and>
   (f \<in> set factors \<and> validatedOf s f \<noteq> Undefined \<longrightarrow>
      userIdOf (setBiometricValidated f False userId s) f = Own IdNull \<and>
      validatedOf (setBiometricValidated f False userId s) f = Own False) \<and>
   (f \<in> set factors \<and> reachable s \<longrightarrow>
      userIdOf (setBiometricValidated f False userId s) f = Own IdNull)"
proof (intro conjI impI)
  show "no_stale_identity s" if "reachable s"
    using that by (rule reachable_no_stale_identity)
next
  assume a: "reachable s \<and> f \<in> set factors"
  then have "no_stale_identity s" by (simp add: reachable_no_stale_identity)
  with a show "\<exists>u. userIdOf s f = Own u"
    and "userIdOf s f \<noteq> Own IdNull \<Longrightarrow> validatedOf s f = Own True"
    by (auto simp: no_stale_identity_def)
next
  assume "no_stale_identity s"
  then show "no_stale_identity (setBiometricValidated type isValidated userId s)"
    and "no_stale_identity (resetBiometricValidations s)"
    and "no_stale_identity (resetSessionValidations s)"
    by (simp_all add: no_stale_setBiometricValidated no_stale_resetBiometricValidations
          no_stale_resetSessionValidations)
next
  assume a: "f \<in> set factors \<and> validatedOf s f \<noteq> Undefined"
  then show "userIdOf (setBiometricValidated f False userId s) f = Own IdNull"
    and "validatedOf (setBiometricValidated f False userId s) f = Own False"
    using invalidate_clears_identity [of f s userId] by simp_all
next
  assume a: "f \<in> set factors \<and> reachable s"
  then have "no_stale_identity s" by (simp add: reachable_no_stale_identity)
  with a have "validatedOf s f \<noteq> Undefined" by (auto simp: no_stale_identity_def)
  with a show "userIdOf (setBiometricValidated f False userId s) f = Own IdNull"
    using invalidate_clears_identity [of f s userId] by simp
qed

theorem C5_witness:
  "reachable (setBiometricValidated ''face'' True (IdStr ''1'') initialState) \<and>
   ''face'' \<in> set factors \<and>
   userIdOf (setBiometricValidated ''face'' True (IdStr ''1'') initialState) ''face'' =
     Own (IdStr ''1'') \<and>
   validatedOf (setBiometricValidated ''face'' True (IdStr ''1'') initialState) ''face'' =
     Own True \<and>
   no_stale_identity (setBiometricValidated ''face'' True (IdStr ''1'') initialState) \<and>
   userIdOf (setBiometricValidated ''face'' False IdNull
              (setBiometricValidated ''face'' True (IdStr ''1'') initialState)) ''face'' =
     Own IdNull"
proof -
  have re: "reachable (setBiometricValidated ''face'' True (IdStr ''1'') initialState)"
    by (intro reachable.intros)
  have f: "''face'' \<in> set factors" by (simp add: factors_def)
  have u: "userIdOf (setBiometricValidated ''face'' True (IdStr ''1'') initialState) ''face'' =
     Own (IdStr ''1'')"
    by (simp add: model_defs)
  show ?thesis
    using C5_no_stale_identity
            [of "setBiometricValidated ''face'' True (IdStr ''1'') initialState" "''face''"
                "''face''" False IdNull]
          re f u
    by simp
qed

section \<open>Validation without an identifier\<close>

lemma animation_blocked_cong:
  assumes a: "validatedBiometrics s = validatedBiometrics s'"
      and b: "validatedUserIds s = validatedUserIds s'"
  shows "animation_blocked s = animation_blocked s'"
  unfolding animation_blocked_def a b match_cong [OF a b] by (rule refl)

lemma userIds_outcome:
  assumes "obj_get (validatedBiometrics s) type \<noteq> Undefined"
  shows "validatedUserIds (setBiometricValidated type isValidated userId s) =
           validatedUserIds (storeValidation type isValidated userId s) \<or>
         validatedUserIds (setBiometricValidated type isValidated userId s) =
           assign_all IdNull (validatedUserIds (storeValidation type isValidated userId s))"
proof -
  let ?s1 = "storeValidation type isValidated userId s"
  let ?s2 = "snd (doValidatedBiometricsMatchSameUser ?s1)"
  have s2: "validatedUserIds ?s2 = validatedUserIds ?s1" by simp
  have sh: "validatedUserIds (showCarDoorAnimation ?s2) = validatedUserIds ?s1 \<or>
            validatedUserIds (showCarDoorAnimation ?s2) = assign_all IdNull (validatedUserIds ?s1)"
    using showCarDoorAnimation_blocked(3) [of ?s2] showCarDoorAnimation_shown(3) [of ?s2] s2
    by metis
  have sv: "validatedUserIds (securityViolation ?s2) = assign_all IdNull (validatedUserIds ?s1)"
    by (simp add: securityViolation_fields del: storeValidation_fields)
  from setBiometricValidated_outcomes [OF assms, of isValidated userId]
  have "setBiometricValidated type isValidated userId s = showCarDoorAnimation ?s2 \<or>
        setBiometricValidated type isValidated userId s = securityViolation ?s2 \<or>
        setBiometricValidated type isValidated userId s = ?s2" by simp
  with s2 sh sv show ?thesis by metis
qed

lemma userId_changes:
  assumes g: "g \<in> set factors"
  shows "userIdOf (setBiometricValidated type isValidated userId s) g = userIdOf s g \<or>
     (type = g \<and> isValidated \<and> userId \<noteq> IdNull \<and>
      userIdOf (setBiometricValidated type isValidated userId s) g = Own userId) \<or>
     (type = g \<and> \<not> isValidated \<and>
      userIdOf (setBiometricValidated type isValidated userId s) g = Own IdNull) \<or>
     (validatedUserIds (setBiometricValidated type isValidated userId s) =
        assign_all IdNull (validatedUserIds (storeValidation type isValidated userId s)) \<and>
      userIdOf (setBiometricValidated type isValidated userId s) g = Own IdNull)"
proof (cases "obj_get (validatedBiometrics s) type = Undefined")
  case True
  then show ?thesis by (simp add: undefined_type_only_logs userIdOf_def)
next
  case False
  from g have ni: "g \<notin> set object_prototype_names" by (rule factor_not_inherited)
  let ?s1 = "storeValidation type isValidated userId s"
  let ?r = "setBiometricValidated type isValidated userId s"
  have u1: "obj_get (validatedUserIds ?s1) g =
      (if type = g \<and> (isValidated \<longrightarrow> userId \<noteq> IdNull)
       then Own (if isValidated then userId else IdNull) else obj_get (validatedUserIds s) g)"
    by (simp add: assign_id_def obj_get_assign [OF ni])
  from userIds_outcome [OF False, of isValidated userId]
  consider (same) "validatedUserIds ?r = validatedUserIds ?s1"
    | (reset) "validatedUserIds ?r = assign_all IdNull (validatedUserIds ?s1)" by blast
  then show ?thesis
  proof cases
    case same
    then have "userIdOf ?r g = obj_get (validatedUserIds ?s1) g" by (simp add: userIdOf_def)
    then show ?thesis unfolding u1 by (auto simp: userIdOf_def)
  next
    case reset
    then have "userIdOf ?r g =
        (case obj_get (validatedUserIds ?s1) g of Own _ \<Rightarrow> Own IdNull
         | Inherited k \<Rightarrow> Inherited k | Undefined \<Rightarrow> Undefined)"
      by (simp add: userIdOf_def obj_get_assign_all del: storeValidation_fields)
    then show ?thesis using reset unfolding u1
      by (auto simp: userIdOf_def split: lookup.splits if_splits)
  qed
qed


text \<open>
  C10, as stated, fails. After \<open>face\<close> has been validated for user \<open>"1"\<close>, the session
  flags reset and \<open>voice\<close> validated without an identifier, the call
  \<open>setBiometricValidated('face', true)\<close> without an identifier triggers the animation,
  whose own check finds \<open>"1"\<close> and \<open>null\<close> different and resets everything: the
  stored identifier of \<open>face\<close> is not preserved and its flags are not \<open>true\<close>.
\<close>

theorem C10_counterexample:
  "reachable
     (setBiometricValidated ''voice'' True IdNull
       (resetSessionValidations
         (setBiometricValidated ''face'' True (IdStr ''1'') initialState))) \<and>
   userIdOf
     (setBiometricValidated ''voice'' True IdNull
       (resetSessionValidations
         (setBiometricValidated ''face'' True (IdStr ''1'') initialState))) ''face'' =
     Own (IdStr ''1'') \<and>
   userIdOf
     (setBiometricValidated ''face'' True IdNull
       (setBiometricValidated ''voice'' True IdNull
         (resetSessionValidations
           (setBiometricValidated ''face'' True (IdStr ''1'') initialState)))) ''face'' =
     Own IdNull \<and>
   validatedOf
     (setBiometricValidated ''face'' True IdNull
       (setBiometricValidated ''voice'' True IdNull
         (resetSessionValidations
           (setBiometricValidated ''face'' True (IdStr ''1'') initialState)))) ''face'' =
     Own False \<and>
   sessionFlagOf
     (setBiometricValidated ''face'' True IdNull
       (setBiometricValidated ''voice'' True IdNull
         (resetSessionValidations
           (setBiometricValidated ''face'' True (IdStr ''1'') initialState)))) ''face'' =
     Own False"
proof -
  have "reachable
     (setBiometricValidated ''voice'' True IdNull
       (resetSessionValidations
         (setBiometricValidated ''face'' True (IdStr ''1'') initialState)))"
    by (intro reachable.intros)
  then show ?thesis by (simp add: model_defs)
qed

text \<open>
  C10, amended. A call \<open>setBiometricValidated(f, true)\<close> without an identifier, for a
  biometric type \<open>f\<close> that passes the guard, leaves every stored identifier as it was in
  its store updates and sets the validation flag and the session flag of \<open>f\<close>. The
  call ends in that state unless it runs the security reset, which happens when the
  animation it triggers is blocked by the check of \<open>showCarDoorAnimation\<close>, or when
  it triggers no animation and two validated biometrics mismatch; then every flag is
  \<open>false\<close> and every identifier \<open>null\<close>. In any call, the stored identifier of a
  biometric type is unchanged, or overwritten by a non-null identifier supplied for that
  type, or cleared by the invalidation of that type, or cleared by the security reset;
  \<open>resetSessionValidations\<close> leaves it unchanged.
\<close>

theorem C10_revalidation_without_identifier:
  "(f \<in> set factors \<and> validatedOf s f \<noteq> Undefined \<longrightarrow>
      (let s1 = storeValidation f True IdNull s;
           r = setBiometricValidated f True IdNull s;
           usersMatch = fst (doValidatedBiometricsMatchSameUser s1);
           triggered = (2 \<le> countValidatedBiometrics s1 \<and> \<not> animationVisible s \<and>
                        \<not> truthy (sessionFlagOf s f) \<and> 2 \<le> countSessionValidations s1 \<and>
                        usersMatch);
           security_reset = (if triggered then animation_blocked s1
                             else 2 \<le> countValidatedBiometrics s1 \<and> \<not> usersMatch)
       in validatedUserIds s1 = validatedUserIds s \<and>
          validatedOf s1 f = Own True \<and> sessionFlagOf s1 f = Own True \<and>
          (\<not> security_reset \<longrightarrow>
             validatedUserIds r = validatedUserIds s \<and>
             validatedOf r f = Own True \<and> sessionFlagOf r f = Own True) \<and>
          (security_reset \<longrightarrow>
             validatedBiometrics r = assign_all False (validatedBiometrics s1) \<and>
             sessionValidations r = assign_all False (sessionValidations s1) \<and>
             validatedUserIds r = assign_all IdNull (validatedUserIds s)))) \<and>
   (g \<in> set factors \<longrightarrow>
      userIdOf (setBiometricValidated type isValidated userId s) g = userIdOf s g \<or>
      (type = g \<and> isValidated \<and> userId \<noteq> IdNull \<and>
       userIdOf (setBiometricValidated type isValidated userId s) g = Own userId) \<or>
      (type = g \<and> \<not> isValidated \<and>
       userIdOf (setBiometricValidated type isValidated userId s) g = Own IdNull) \<or>
      (validatedUserIds (setBiometricValidated type isValidated userId s) =
         assign_all IdNull (validatedUserIds (storeValidation type isValidated userId s)) \<and>
       userIdOf (setBiometricValidated type isValidated userId s) g = Own IdNull)) \<and>
   userIdOf (resetSessionValidations s) g = userIdOf s g"
proof (intro conjI impI)
  assume a: "f \<in> set factors \<and> validatedOf s f \<noteq> Undefined"
  then have ni: "f \<notin> set object_prototype_names" by (simp add: factor_not_inherited)
  from a have k: "obj_get (validatedBiometrics s) f \<noteq> Undefined" by (simp add: validatedOf_def)
  let ?s1 = "storeValidation f True IdNull s"
  let ?s2 = "snd (doValidatedBiometricsMatchSameUser ?s1)"
  let ?r = "setBiometricValidated f True IdNull s"
  let ?m = "fst (doValidatedBiometricsMatchSameUser ?s1)"
  let ?t = "2 \<le> countValidatedBiometrics ?s1 \<and> \<not> animationVisible s \<and>
            \<not> truthy (sessionFlagOf s f) \<and> 2 \<le> countSessionValidations ?s1 \<and> ?m"
  let ?reset = "if ?t then animation_blocked ?s1 else 2 \<le> countValidatedBiometrics ?s1 \<and> \<not> ?m"
  have ids1: "validatedUserIds ?s1 = validatedUserIds s" by simp
  have v1: "validatedOf ?s1 f = Own True"
    by (simp add: validatedOf_def assign_flag_def obj_get_assign [OF ni])
  have f1: "sessionFlagOf ?s1 f = Own True"
    by (simp add: sessionFlagOf_def assign_flag_def obj_get_assign [OF ni])
  have bl: "animation_blocked ?s2 = animation_blocked ?s1"
    by (rule animation_blocked_cong) simp_all
  have r: "?r = (if ?t then showCarDoorAnimation ?s2
                 else if 2 \<le> countValidatedBiometrics ?s1 \<and> \<not> ?m then securityViolation ?s2
                 else ?s2)"
    by (simp add: setBiometricValidated_known [OF k] Let_def)
  have keep: "validatedUserIds ?r = validatedUserIds s \<and>
             validatedOf ?r f = Own True \<and> sessionFlagOf ?r f = Own True" if "\<not> ?reset"
  proof (cases ?t)
    case True
    with that have nb: "\<not> animation_blocked ?s2" by (simp add: bl)
    have "?r = showCarDoorAnimation ?s2" by (simp only: r True if_True simp_thms)
    then show ?thesis
      using v1 f1
      by (simp add: validatedOf_def sessionFlagOf_def showCarDoorAnimation_shown [OF nb]
               del: storeValidation_fields)
         simp
  next
    case False
    with that have nc: "\<not> (2 \<le> countValidatedBiometrics ?s1 \<and> \<not> ?m)" by simp
    have "?r = ?s2" by (simp only: r False nc if_False simp_thms)
    then show ?thesis
      using v1 f1
      by (simp add: validatedOf_def sessionFlagOf_def del: storeValidation_fields) simp
  qed
  have zero: "validatedBiometrics ?r = assign_all False (validatedBiometrics ?s1) \<and>
             sessionValidations ?r = assign_all False (sessionValidations ?s1) \<and>
             validatedUserIds ?r = assign_all IdNull (validatedUserIds s)" if "?reset"
  proof (cases ?t)
    case True
    with that have b: "animation_blocked ?s2" by (simp add: bl)
    have "?r = showCarDoorAnimation ?s2" by (simp only: r True if_True simp_thms)
    then show ?thesis
      by (simp add: showCarDoorAnimation_blocked [OF b] del: storeValidation_fields) simp
  next
    case False
    with that have c: "2 \<le> countValidatedBiometrics ?s1 \<and> \<not> ?m" by simp
    have "?r = securityViolation ?s2" by (simp only: r False c if_False if_True simp_thms)
    then show ?thesis
      by (simp add: securityViolation_fields del: storeValidation_fields) simp
  qed
  show "let s1 = ?s1; r = ?r;
           usersMatch = fst (doValidatedBiometricsMatchSameUser s1);
           triggered = (2 \<le> countValidatedBiometrics s1 \<and> \<not> animationVisible s \<and>
                        \<not> truthy (sessionFlagOf s f) \<and> 2 \<le> countSessionValidations s1 \<and>
                        usersMatch);
           security_reset = (if triggered then animation_blocked s1
                             else 2 \<le> countValidatedBiometrics s1 \<and> \<not> usersMatch)
       in validatedUserIds s1 = validatedUserIds s \<and>
          validatedOf s1 f = Own True \<and> sessionFlagOf s1 f = Own True \<and>
          (\<not> security_reset \<longrightarrow>
             validatedUserIds r = validatedUserIds s \<and>
             validatedOf r f = Own True \<and> sessionFlagOf r f = Own True) \<and>
          (security_reset \<longrightarrow>
             validatedBiometrics r = assign_all False (validatedBiometrics s1) \<and>
             sessionValidations r = assign_all False (sessionValidations s1) \<and>
             validatedUserIds r = assign_all IdNull (validatedUserIds s))"
    unfolding Let_def using ids1 v1 f1 keep zero by blast
next
  assume "g \<in> set factors"
  then show "userIdOf (setBiometricValidated type isValidated userId s) g = userIdOf s g \<or>
      (type = g \<and> isValidated \<and> userId \<noteq> IdNull \<and>
       userIdOf (setBiometricValidated type isValidated userId s) g = Own userId) \<or>
      (type = g \<and> \<not> isValidated \<and>
       userIdOf (setBiometricValidated type isValidated userId s) g = Own IdNull) \<or>
      (validatedUserIds (setBiometricValidated type isValidated userId s) =
         assign_all IdNull (validatedUserIds (storeValidation type isValidated userId s)) \<and>
       userIdOf (setBiometricValidated type isValidated userId s) g = Own IdNull)"
    by (rule userId_changes)
next
  show "userIdOf (resetSessionValidations s) g = userIdOf s g"
    by (simp add: userIdOf_def resetSessionValidations_def Let_def save_defs)
qed


theorem C10_witness:
  "''face'' \<in> set factors \<and>
   validatedOf (setBiometricValidated ''face'' True (IdStr ''1'') initialState) ''face'' \<noteq> Undefined \<and>
   validatedUserIds
     (setBiometricValidated ''face'' True IdNull
       (setBiometricValidated ''face'' True (IdStr ''1'') initialState)) =
   validatedUserIds (setBiometricValidated ''face'' True (IdStr ''1'') initialState) \<and>
   userIdOf (setBiometricValidated ''face'' True (IdStr ''1'') initialState) ''face'' =
     Own (IdStr ''1'') \<and>
   validatedOf
     (setBiometricValidated ''face'' True IdNull
       (setBiometricValidated ''face'' True (IdStr ''1'') initialState)) ''face'' = Own True \<and>
   animation_blocked
     (storeValidation ''face'' True IdNull
       (setBiometricValidated ''voice'' True IdNull
         (resetSessionValidations
           (setBiometricValidated ''face'' True (IdStr ''1'') initialState)))) \<and>
   validatedUserIds
     (setBiometricValidated ''face'' True IdNull
       (setBiometricValidated ''voice'' True IdNull
         (resetSessionValidations
           (setBiometricValidated ''face'' True (IdStr ''1'') initialState)))) =
   assign_all IdNull
     (validatedUserIds
       (setBiometricValidated ''voice'' True IdNull
         (resetSessionValidations
           (setBiometricValidated ''face'' True (IdStr ''1'') initialState))))"
proof -
  let ?A = "setBiometricValidated ''face'' True (IdStr ''1'') initialState"
  let ?B = "setBiometricValidated ''voice'' True IdNull (resetSessionValidations ?A)"
  have f: "''face'' \<in> set factors" by (simp add: factors_def)
  have kA: "validatedOf ?A ''face'' \<noteq> Undefined" "userIdOf ?A ''face'' = Own (IdStr ''1'')"
    by (simp_all add: model_defs)
  have kB: "validatedOf ?B ''face'' \<noteq> Undefined"
    by (simp add: model_defs)
  have cA: "countValidatedBiometrics (storeValidation ''face'' True IdNull ?A) = 1"
    by (simp add: model_defs)
  have cB: "countValidatedBiometrics (storeValidation ''face'' True IdNull ?B) = 2"
    "countSessionValidations (storeValidation ''face'' True IdNull ?B) = 2"
    "\<not> animationVisible ?B" "\<not> truthy (sessionFlagOf ?B ''face'')"
    "userIds (storeValidation ''face'' True IdNull ?B) = [IdStr ''1'']"
    by (simp_all add: model_defs)
  have mB: "fst (doValidatedBiometricsMatchSameUser (storeValidation ''face'' True IdNull ?B))"
    by (simp add: doValidated_result cB)
  have bB: "animation_blocked (storeValidation ''face'' True IdNull ?B)"
    by (simp add: animation_blocked_def model_defs)
  have keepA: "validatedUserIds (setBiometricValidated ''face'' True IdNull ?A) = validatedUserIds ?A \<and>
        validatedOf (setBiometricValidated ''face'' True IdNull ?A) ''face'' = Own True"
    using C10_revalidation_without_identifier [of "''face''" ?A "''face''" "''face''" True IdNull]
          f kA cA
    unfolding Let_def by simp
  have zeroB: "validatedUserIds (setBiometricValidated ''face'' True IdNull ?B) =
        assign_all IdNull (validatedUserIds ?B)"
    using C10_revalidation_without_identifier [of "''face''" ?B "''face''" "''face''" True IdNull]
          f kB cB mB bB
    unfolding Let_def by simp
  from f kA keepA bB zeroB show ?thesis by simp
qed

end
